theory Spec2Isabelle
  imports Main "HOL-Library.Word"
begin

unbundle bit_operations_syntax

section \<open>Machine types, status codes and faults\<close>

text \<open>
  The shim of \<^verbatim>\<open>crypto_vfs.c\<close> works on bytes, on C \<^verbatim>\<open>int\<close> (32 bits,
  read with \<open>sint\<close>), on \<^verbatim>\<open>u32\<close> and on \<^verbatim>\<open>sqlite_int64\<close> (64 bits, read with
  \<open>sint\<close>). Addition on words wraps around; C leaves signed overflow undefined.
\<close>

type_synonym byte = "8 word"
type_synonym u32 = "32 word"
type_synonym c_int = "32 word"
type_synonym i64 = "64 word"

definition SQLITE_OK :: int where "SQLITE_OK = 0"
definition SQLITE_NOMEM :: int where "SQLITE_NOMEM = 7"
definition SQLITE_IOERR :: int where "SQLITE_IOERR = 10"
definition SQLITE_NOTFOUND :: int where "SQLITE_NOTFOUND = 12"
definition SQLITE_FULL :: int where "SQLITE_FULL = 13"
definition SQLITE_IOERR_SHORT_READ :: int where "SQLITE_IOERR_SHORT_READ = 522"

text \<open>
  A memory access outside an allocated buffer, or through a null pointer, is undefined
  behaviour in C. The model makes it a value: every function that touches a buffer
  returns \<open>fault + result\<close>.
\<close>

datatype fault = OutOfBounds | NullDeref

definition ok_then :: "fault + 'a \<Rightarrow> ('a \<Rightarrow> fault + 'b) \<Rightarrow> fault + 'b" where
  "ok_then r f = (case r of Inl e \<Rightarrow> Inl e | Inr x \<Rightarrow> f x)"

section \<open>The header layout\<close>

text \<open>The 32 magic bytes, \<^verbatim>\<open>sqlcipherMagic\<close> (lines 13--18).\<close>

definition sqlcipherMagic :: "byte list" where
  "sqlcipherMagic =
     [0xB0, 0x08, 0xA6, 0x79, 0x75, 0x7E, 0x3E, 0x9E,
      0xF3, 0x00, 0x58, 0xDD, 0xB8, 0x9D, 0xE2, 0x3B,
      0x7D, 0x92, 0xDA, 0xAF, 0xE0, 0x11, 0x0A, 0x5F,
      0x05, 0x76, 0x4A, 0xF6, 0xED, 0x9D, 0xE4, 0x84]"

definition SQLCIPHER_MAGIC_SZ :: nat where
  "SQLCIPHER_MAGIC_SZ = 32"

text \<open>\<^verbatim>\<open>SQLCIPHER_MAGIC_SZ+sizeof(u32)\<close> (line 43).\<close>

definition SQLCIPHER_MIN_HDR_SZ :: nat where
  "SQLCIPHER_MIN_HDR_SZ = SQLCIPHER_MAGIC_SZ + 4"

text \<open>
  Modelled from the spec: \<^verbatim>\<open>sqlite3Get4byte\<close> and \<^verbatim>\<open>sqlite3Put4byte\<close> are
  helpers of the SQLite core that are not under src/. The spec (sections 4.1 and 6)
  fixes what they do: a field is a big-endian unsigned 32-bit integer. The access is to
  the four bytes \<open>off .. off + 3\<close> of the buffer; outside the buffer it is a fault.
\<close>

definition sqlite3Get4byte :: "byte list \<Rightarrow> nat \<Rightarrow> fault + u32" where
  "sqlite3Get4byte p off =
     (if off + 4 \<le> length p
      then Inr (push_bit 24 (ucast (p ! off)) OR push_bit 16 (ucast (p ! (off + 1)))
                OR push_bit 8 (ucast (p ! (off + 2))) OR ucast (p ! (off + 3)))
      else Inl OutOfBounds)"

definition sqlite3Put4byte :: "byte list \<Rightarrow> nat \<Rightarrow> u32 \<Rightarrow> fault + byte list" where
  "sqlite3Put4byte p off v =
     (if off + 4 \<le> length p
      then Inr (p[off := ucast (drop_bit 24 v), off + 1 := ucast (drop_bit 16 v),
                  off + 2 := ucast (drop_bit 8 v), off + 3 := ucast v])
      else Inl OutOfBounds)"

text \<open>
  Modelled from the spec: \<^verbatim>\<open>sqlcipher_malloc\<close> is not under src/. The spec
  (section 4.1) says the encoded buffer has \<open>reserveSize\<close> bytes and that the bytes
  after the fields are zero: the allocation is a buffer of zero bytes of that length.
  It is taken to succeed; the source does not check it.
\<close>

definition sqlcipher_malloc :: "nat \<Rightarrow> byte list" where
  "sqlcipher_malloc n = replicate n 0"

text \<open>\<^verbatim>\<open>memcpy(dst, src, n)\<close> to the start of \<open>dst\<close>.\<close>

definition memcpy :: "byte list \<Rightarrow> byte list \<Rightarrow> nat \<Rightarrow> fault + byte list" where
  "memcpy dst src n =
     (if n \<le> length dst \<and> n \<le> length src then Inr (take n src @ drop n dst)
      else Inl OutOfBounds)"

text \<open>
  A buffer of the caller that the underlying read has filled: its length stays the one
  it was allocated with.
\<close>

definition buf_fill :: "byte list \<Rightarrow> byte list \<Rightarrow> byte list" where
  "buf_fill buf data = take (length buf) data @ drop (length data) buf"

section \<open>The underlying file and the handle\<close>

text \<open>
  The five methods of the underlying \<^verbatim>\<open>sqlite3_file\<close> that the shim calls through
  \<^verbatim>\<open>pReal->pMethods\<close>. The state \<open>'f\<close> of the underlying file is threaded through
  every call; a status code comes back with it. \<open>xRead\<close> returns the bytes it stored
  in the caller's buffer.
\<close>

record 'f io_methods =
  xRead :: "'f \<Rightarrow> c_int \<Rightarrow> i64 \<Rightarrow> int \<times> byte list \<times> 'f"
  xWrite :: "'f \<Rightarrow> byte list \<Rightarrow> c_int \<Rightarrow> i64 \<Rightarrow> int \<times> 'f"
  xTruncate :: "'f \<Rightarrow> i64 \<Rightarrow> int \<times> 'f"
  xFileSize :: "'f \<Rightarrow> int \<times> i64 \<times> 'f"
  xSectorSize :: "'f \<Rightarrow> c_int"

text \<open>
  Modelled from the spec: \<^verbatim>\<open>struct sqlcipherVfs_file\<close> is declared in
  \<^verbatim>\<open>sqlcipher.h\<close>, which is not under src/. The fields are the ones
  \<^verbatim>\<open>crypto_vfs.c\<close> uses; the six header fields are unsigned 32-bit integers
  (spec, section 3), the three flags are booleans. \<open>pReal\<close> holds the state of the
  underlying file.
\<close>

record 'f sqlcipherVfs_file =
  pReal :: 'f
  use_header :: bool
  needs_write :: bool
  did_read :: bool
  reserve_sz :: u32
  version :: u32
  page_sz :: u32
  kdf_iter :: u32
  fast_kdf_iter :: u32
  flags :: u32

section \<open>Header detection and persistence\<close>

text \<open>
  \<^verbatim>\<open>sqlcipherVfsReadHeader\<close> (lines 57--105). The three flags are cleared; the first
  36 bytes are read into the local array \<^verbatim>\<open>magic\<close>; on a match of the first 32 the
  size is taken from offset 32, a buffer of that size is allocated and read, and five
  fields are loaded from offsets 36 to 52. When the first read fails and the size query
  succeeds with 0, the sector size becomes the reserve size and \<open>needs_write\<close> is set.
  The function returns \<open>SQLITE_OK\<close> on every path.
\<close>

definition sqlcipherVfsReadHeader ::
  "'f io_methods \<Rightarrow> 'f sqlcipherVfs_file \<Rightarrow> fault + (int \<times> 'f sqlcipherVfs_file)" where
  "sqlcipherVfsReadHeader m file0 =
     (let file = file0\<lparr>use_header := False, needs_write := False, did_read := False\<rparr>;
          (rc, data, st1) = xRead m (pReal file) (of_nat SQLCIPHER_MIN_HDR_SZ) 0;
          magic = buf_fill (replicate SQLCIPHER_MIN_HDR_SZ 0) data
      in if rc = SQLITE_OK then
           (if take SQLCIPHER_MAGIC_SZ magic = sqlcipherMagic then
              ok_then (sqlite3Get4byte magic 32) (\<lambda>r.
                let file1 = file\<lparr>pReal := st1, reserve_sz := r\<rparr>;
                    (rc2, data2, st2) = xRead m st1 r 0;
                    header = buf_fill (sqlcipher_malloc (unat r)) data2
                in if rc2 = SQLITE_OK then
                     ok_then (sqlite3Get4byte header 36) (\<lambda>v.
                     ok_then (sqlite3Get4byte header 40) (\<lambda>ps.
                     ok_then (sqlite3Get4byte header 44) (\<lambda>k.
                     ok_then (sqlite3Get4byte header 48) (\<lambda>fk.
                     ok_then (sqlite3Get4byte header 52) (\<lambda>fl.
                       Inr (SQLITE_OK,
                            file1\<lparr>pReal := st2, version := v, page_sz := ps,
                                  kdf_iter := k, fast_kdf_iter := fk, flags := fl,
                                  use_header := True, did_read := True\<rparr>))))))
                   else Inr (SQLITE_OK, file1\<lparr>pReal := st2\<rparr>))
            else Inr (SQLITE_OK, file\<lparr>pReal := st1, reserve_sz := 0\<rparr>))
         else
           (let (rc3, fsize, st3) = xFileSize m st1
            in if rc3 = SQLITE_OK \<and> fsize = 0
               then Inr (SQLITE_OK,
                         file\<lparr>pReal := st3, reserve_sz := xSectorSize m st3,
                              needs_write := True\<rparr>)
               else Inr (SQLITE_OK, file\<lparr>pReal := st3\<rparr>)))"

text \<open>
  The buffer that \<^verbatim>\<open>sqlcipherVfsWriteHeader\<close> builds (lines 108--116): an allocation
  of \<open>reserve_sz\<close> bytes, the magic at 0, then the six fields at 32, 36, 40, 44, 48
  and 52.
\<close>

definition header_image :: "'f sqlcipherVfs_file \<Rightarrow> fault + byte list" where
  "header_image file =
     ok_then (memcpy (sqlcipher_malloc (unat (reserve_sz file))) sqlcipherMagic
                SQLCIPHER_MAGIC_SZ) (\<lambda>h.
     ok_then (sqlite3Put4byte h 32 (reserve_sz file)) (\<lambda>h.
     ok_then (sqlite3Put4byte h 36 (version file)) (\<lambda>h.
     ok_then (sqlite3Put4byte h 40 (page_sz file)) (\<lambda>h.
     ok_then (sqlite3Put4byte h 44 (kdf_iter file)) (\<lambda>h.
     ok_then (sqlite3Put4byte h 48 (fast_kdf_iter file)) (\<lambda>h.
     sqlite3Put4byte h 52 (flags file)))))))"

text \<open>
  \<^verbatim>\<open>sqlcipherVfsWriteHeader\<close> (lines 107--132): the buffer is written at offset 0 of
  the underlying file with length \<open>reserve_sz\<close>. The status of that write only selects
  a trace message: the function returns \<open>SQLITE_OK\<close> either way.
\<close>

definition sqlcipherVfsWriteHeader ::
  "'f io_methods \<Rightarrow> 'f sqlcipherVfs_file \<Rightarrow> fault + (int \<times> 'f sqlcipherVfs_file)" where
  "sqlcipherVfsWriteHeader m file =
     ok_then (header_image file) (\<lambda>header.
       let (rc, st) = xWrite m (pReal file) header (reserve_sz file) 0
       in Inr (SQLITE_OK, file\<lparr>pReal := st\<rparr>))"

section \<open>The four offset-translating operations\<close>

text \<open>The offset added to every logical offset: \<^verbatim>\<open>p->use_header ? p->reserve_sz : 0\<close>.\<close>

definition hdr_shift :: "'f sqlcipherVfs_file \<Rightarrow> i64" where
  "hdr_shift p = (if use_header p then ucast (reserve_sz p) else 0)"

text \<open>\<^verbatim>\<open>sqlcipherVfsRead\<close> (lines 135--144).\<close>

definition sqlcipherVfsRead ::
  "'f io_methods \<Rightarrow> 'f sqlcipherVfs_file \<Rightarrow> c_int \<Rightarrow> i64 \<Rightarrow> int \<times> byte list \<times> 'f sqlcipherVfs_file" where
  "sqlcipherVfsRead m p iAmt iOfst =
     (let (rc, data, st) = xRead m (pReal p) iAmt (iOfst + hdr_shift p)
      in (rc, data, p\<lparr>pReal := st\<rparr>))"

text \<open>The guard of the lazy header write (line 154).\<close>

definition hdr_write_due :: "'f sqlcipherVfs_file \<Rightarrow> i64 \<Rightarrow> bool" where
  "hdr_write_due p iOfst \<longleftrightarrow>
     use_header p \<and> SQLCIPHER_MIN_HDR_SZ \<le> unat (reserve_sz p) \<and> iOfst = 0 \<and> needs_write p"

text \<open>
  \<^verbatim>\<open>sqlcipherVfsWrite\<close> (lines 146--159): under the guard the header is written and
  \<open>needs_write\<close> is cleared, whatever the header write returned; then the caller's
  write is delegated and its status returned.
\<close>

definition sqlcipherVfsWrite ::
  "'f io_methods \<Rightarrow> 'f sqlcipherVfs_file \<Rightarrow> byte list \<Rightarrow> c_int \<Rightarrow> i64
     \<Rightarrow> fault + (int \<times> 'f sqlcipherVfs_file)" where
  "sqlcipherVfsWrite m p zBuf iAmt iOfst =
     ok_then (if hdr_write_due p iOfst
              then ok_then (sqlcipherVfsWriteHeader m p)
                     (\<lambda>(_, p1). Inr (p1\<lparr>needs_write := False\<rparr>))
              else Inr p) (\<lambda>p1.
       let (rc, st) = xWrite m (pReal p1) zBuf iAmt (iOfst + hdr_shift p1)
       in Inr (rc, p1\<lparr>pReal := st\<rparr>))"

text \<open>\<^verbatim>\<open>sqlcipherVfsTruncate\<close> (lines 161--165).\<close>

definition sqlcipherVfsTruncate ::
  "'f io_methods \<Rightarrow> 'f sqlcipherVfs_file \<Rightarrow> i64 \<Rightarrow> int \<times> 'f sqlcipherVfs_file" where
  "sqlcipherVfsTruncate m p sz =
     (let (rc, st) = xTruncate m (pReal p) (sz + hdr_shift p)
      in (rc, p\<lparr>pReal := st\<rparr>))"

text \<open>
  \<^verbatim>\<open>sqlcipherVfsFileSize\<close> (lines 167--181): the comparison and the subtraction are
  on \<^verbatim>\<open>sqlite_int64\<close>, the reserve size converted from \<^verbatim>\<open>u32\<close>.
\<close>

definition sqlcipherVfsFileSize ::
  "'f io_methods \<Rightarrow> 'f sqlcipherVfs_file \<Rightarrow> int \<times> i64 \<times> 'f sqlcipherVfs_file" where
  "sqlcipherVfsFileSize m p =
     (let (rc, rSize, st) = xFileSize m (pReal p);
          pSize = (if use_header p
                   then (if ucast (reserve_sz p) \<le>s rSize then rSize - ucast (reserve_sz p) else 0)
                   else rSize)
      in (rc, pSize, p\<lparr>pReal := st\<rparr>))"

section \<open>Open\<close>

text \<open>
  \<^verbatim>\<open>sqlcipherVfsOpen\<close> (lines 250--302). The first argument is what the root
  provider's \<^verbatim>\<open>xOpen\<close> produced: its status, the method table it installed in the
  underlying file (none when it failed) and the file. The second is the memory of the
  handle as the caller passed it. Header detection runs whether or not the root open
  installed a method table, and calls through that table; its status is dropped and
  the root's status returned. The allocation of the shim's method table is taken to
  succeed.
\<close>

definition sqlcipherVfsOpen ::
  "int \<times> 'f io_methods option \<times> 'f \<Rightarrow> 'f sqlcipherVfs_file
     \<Rightarrow> fault + (int \<times> 'f sqlcipherVfs_file)" where
  "sqlcipherVfsOpen ropen p0 =
     (case ropen of (rc, pMethods, st) \<Rightarrow>
        (case pMethods of
           None \<Rightarrow> Inl NullDeref
         | Some m \<Rightarrow>
             ok_then (sqlcipherVfsReadHeader m (p0\<lparr>pReal := st\<rparr>))
               (\<lambda>(_, p). Inr (rc, p))))"

section \<open>An in-memory underlying file\<close>

text \<open>
  Modelled from the spec: the underlying file is an external collaborator that the shim
  only consumes (section 6, consumed interface): offset-addressed, synchronous reads and
  writes that may fail. This in-memory file is one such implementation: a read that runs
  past the end is a short read with the rest of the buffer zeroed, a write past the end
  extends the file with zero bytes, a negative length or offset is an I/O error.
\<close>

record mem_file =
  mem_bytes :: "byte list"
  mem_sector :: c_int

definition mem_xRead :: "mem_file \<Rightarrow> c_int \<Rightarrow> i64 \<Rightarrow> int \<times> byte list \<times> mem_file" where
  "mem_xRead f iAmt iOfst =
     (if sint iAmt < 0 \<or> sint iOfst < 0 then (SQLITE_IOERR, [], f)
      else let n = unat iAmt; got = take n (drop (unat iOfst) (mem_bytes f))
           in if length got = n then (SQLITE_OK, got, f)
              else (SQLITE_IOERR_SHORT_READ, got @ replicate (n - length got) 0, f))"

definition mem_xWrite :: "mem_file \<Rightarrow> byte list \<Rightarrow> c_int \<Rightarrow> i64 \<Rightarrow> int \<times> mem_file" where
  "mem_xWrite f zBuf iAmt iOfst =
     (if sint iAmt < 0 \<or> sint iOfst < 0 then (SQLITE_IOERR, f)
      else let data = take (unat iAmt) zBuf; ofs = unat iOfst;
               b = mem_bytes f @ replicate (ofs - length (mem_bytes f)) 0
           in (SQLITE_OK, f\<lparr>mem_bytes := take ofs b @ data @ drop (ofs + length data) b\<rparr>))"

definition mem_xTruncate :: "mem_file \<Rightarrow> i64 \<Rightarrow> int \<times> mem_file" where
  "mem_xTruncate f sz =
     (if sint sz < 0 then (SQLITE_IOERR, f)
      else (SQLITE_OK,
            f\<lparr>mem_bytes := take (unat sz) (mem_bytes f)
                             @ replicate (unat sz - length (mem_bytes f)) 0\<rparr>))"

definition mem_xFileSize :: "mem_file \<Rightarrow> int \<times> i64 \<times> mem_file" where
  "mem_xFileSize f = (SQLITE_OK, of_nat (length (mem_bytes f)), f)"

definition mem_methods :: "mem_file io_methods" where
  "mem_methods =
     \<lparr>xRead = mem_xRead, xWrite = mem_xWrite, xTruncate = mem_xTruncate,
      xFileSize = mem_xFileSize, xSectorSize = mem_sector\<rparr>"

text \<open>The same file on a full device: every write fails and changes nothing.\<close>

definition full_methods :: "mem_file io_methods" where
  "full_methods = mem_methods\<lparr>xWrite := (\<lambda>f zBuf iAmt iOfst. (SQLITE_FULL, f))\<rparr>"

section \<open>Registration\<close>

text \<open>
  A provider (\<^verbatim>\<open>sqlite3_vfs\<close>) with the fields that \<^verbatim>\<open>sqlcipherVfs_register\<close>
  sets. \<open>vfs_addr\<close> is the address of the object, its identity in the list of
  providers. \<open>xOpen_shim\<close> says that \<^verbatim>\<open>xOpen\<close> is \<^verbatim>\<open>sqlcipherVfsOpen\<close>;
  \<open>methods_of\<close> is the address of the provider whose other methods (delete, access,
  full pathname, dynamic loading, randomness, sleep, time, last error, system calls) this
  one points to; \<open>pRootVfs\<close> is \<^verbatim>\<open>pAppData->pRootVfs\<close>.
\<close>

record sqlite3_vfs =
  vfs_addr :: nat
  iVersion :: int
  szOsFile :: int
  mxPathname :: int
  zName :: string
  xOpen_shim :: bool
  methods_of :: nat
  pRootVfs :: "nat option"

text \<open>
  Modelled from the spec: \<^verbatim>\<open>sqlite3_vfs_find\<close> and \<^verbatim>\<open>sqlite3_vfs_register\<close>
  belong to the SQLite core and are not under src/. The spec (sections 4.4 and 5) has a
  process-wide registry of named providers; here it is the list of providers, the
  default one first. Finding by name returns the first provider of that name, and the
  default one for a null name; registering unlinks the provider if it is in the list and
  puts it first when it is made the default, second otherwise.
\<close>

type_synonym registry = "sqlite3_vfs list"

definition sqlite3_vfs_find :: "string option \<Rightarrow> registry \<Rightarrow> sqlite3_vfs option" where
  "sqlite3_vfs_find zVfs reg =
     (case zVfs of
        None \<Rightarrow> (case reg of [] \<Rightarrow> None | v # _ \<Rightarrow> Some v)
      | Some n \<Rightarrow> find (\<lambda>v. zName v = n) reg)"

fun vfsUnlink :: "nat \<Rightarrow> registry \<Rightarrow> registry" where
  "vfsUnlink a [] = []"
| "vfsUnlink a (v # vs) = (if vfs_addr v = a then vs else v # vfsUnlink a vs)"

definition sqlite3_vfs_register :: "sqlite3_vfs \<Rightarrow> bool \<Rightarrow> registry \<Rightarrow> int \<times> registry" where
  "sqlite3_vfs_register pVfs makeDflt reg =
     (case vfsUnlink (vfs_addr pVfs) reg of
        [] \<Rightarrow> (SQLITE_OK, [pVfs])
      | v # vs \<Rightarrow> (SQLITE_OK, if makeDflt then pVfs # v # vs else v # pVfs # vs))"

definition newVfsName :: string where
  "newVfsName = ''sqlcipher''"

text \<open>
  \<^verbatim>\<open>sqlcipherVfs_register\<close> (lines 312--378). \<open>szFile\<close> is
  \<^verbatim>\<open>sizeof(sqlcipherVfs_file)\<close>; \<open>alloc\<close> is what \<^verbatim>\<open>sqlite3_malloc\<close> would
  return, the address of the new object or nothing. The name is looked up and the
  allocation made only when no provider named \<^verbatim>\<open>sqlcipher\<close> is registered yet.
\<close>

definition sqlcipherVfs_register ::
  "int \<Rightarrow> string option \<Rightarrow> nat option \<Rightarrow> registry \<Rightarrow> int \<times> registry" where
  "sqlcipherVfs_register szFile zOldVfsName alloc reg =
     (case sqlite3_vfs_find (Some newVfsName) reg of
        None \<Rightarrow>
          (case sqlite3_vfs_find zOldVfsName reg of
             None \<Rightarrow> (SQLITE_NOTFOUND, reg)
           | Some pRoot \<Rightarrow>
               (case alloc of
                  None \<Rightarrow> (SQLITE_NOMEM, reg)
                | Some a \<Rightarrow>
                    sqlite3_vfs_register
                      \<lparr>vfs_addr = a, iVersion = iVersion pRoot,
                       szOsFile = szOsFile pRoot + szFile, mxPathname = mxPathname pRoot,
                       zName = newVfsName, xOpen_shim = True,
                       methods_of = methods_of pRoot,
                       pRootVfs = Some (vfs_addr pRoot)\<rparr> True reg))
      | Some pNew \<Rightarrow> sqlite3_vfs_register pNew True reg)"

section \<open>Handles and files used as examples\<close>

text \<open>The memory of a handle before the open, all zero, on the file \<open>f\<close>.\<close>

definition blank_handle :: "'f \<Rightarrow> 'f sqlcipherVfs_file" where
  "blank_handle f =
     \<lparr>pReal = f, use_header = False, needs_write = False, did_read = False,
      reserve_sz = 0, version = 0, page_sz = 0, kdf_iter = 0, fast_kdf_iter = 0, flags = 0\<rparr>"

text \<open>The first 40 bytes of a plain SQLite database, on a device with 512-byte sectors.\<close>

definition plain_db :: mem_file where
  "plain_db =
     \<lparr>mem_bytes =
        [0x53, 0x51, 0x4C, 0x69, 0x74, 0x65, 0x20, 0x66,
         0x6F, 0x72, 0x6D, 0x61, 0x74, 0x20, 0x33, 0x00,
         0x10, 0x00, 0x01, 0x01, 0x00, 0x40, 0x20, 0x20,
         0x00, 0x00, 0x00, 0x01, 0x00, 0x00, 0x00, 0x01,
         0x00, 0x00, 0x00, 0x00, 0x00, 0x00, 0x00, 0x00],
      mem_sector = 512\<rparr>"

text \<open>A file of ten bytes: too short for the 36-byte read, and not empty.\<close>

definition short_file :: mem_file where
  "short_file = \<lparr>mem_bytes = [1, 2, 3, 4, 5, 6, 7, 8, 9, 10], mem_sector = 4096\<rparr>"

text \<open>An empty file on a device with 4096-byte sectors.\<close>

definition empty_file :: mem_file where
  "empty_file = \<lparr>mem_bytes = [], mem_sector = 4096\<rparr>"

text \<open>
  A handle on an empty file with the header in use and still to be written, for a
  reserve size of \<open>r\<close>.
\<close>

definition pending_handle :: "u32 \<Rightarrow> mem_file sqlcipherVfs_file" where
  "pending_handle r =
     (blank_handle \<lparr>mem_bytes = [], mem_sector = r\<rparr>)
       \<lparr>use_header := True, needs_write := True, reserve_sz := r\<rparr>"

text \<open>Such a handle for a reserve size of 64, its five other fields filled in.\<close>

definition stamped_handle :: "mem_file sqlcipherVfs_file" where
  "stamped_handle =
     (pending_handle 64)\<lparr>version := 4, page_sz := 1024, kdf_iter := 64000,
                          fast_kdf_iter := 2, flags := 1\<rparr>"

text \<open>
  A file of 44 bytes that starts with the magic and stores a reserve size of 40: the
  stored size is smaller than the 56 bytes of the header layout.
\<close>

definition small_reserve_file :: mem_file where
  "small_reserve_file =
     \<lparr>mem_bytes = sqlcipherMagic @ [0, 0, 0, 40, 0, 0, 0, 1, 0, 0, 4, 0], mem_sector = 512\<rparr>"

text \<open>A root provider, and the shim as registration over it builds it at address 2.\<close>

definition unix_vfs :: sqlite3_vfs where
  "unix_vfs =
     \<lparr>vfs_addr = 1, iVersion = 3, szOsFile = 120, mxPathname = 512, zName = ''unix'',
      xOpen_shim = False, methods_of = 1, pRootVfs = None\<rparr>"

definition shim_vfs :: sqlite3_vfs where
  "shim_vfs =
     \<lparr>vfs_addr = 2, iVersion = 3, szOsFile = 200, mxPathname = 512, zName = ''sqlcipher'',
      xOpen_shim = True, methods_of = 1, pRootVfs = Some 1\<rparr>"

section \<open>Facts about words and buffers\<close>

lemma be32_roundtrip:
  fixes v :: u32
  shows "push_bit 24 (ucast (ucast (drop_bit 24 v) :: byte))
         OR push_bit 16 (ucast (ucast (drop_bit 16 v) :: byte))
         OR push_bit 8 (ucast (ucast (drop_bit 8 v) :: byte))
         OR ucast (ucast v :: byte) = v"
proof (rule bit_word_eqI)
  fix n assume n: "n < LENGTH(32)"
  consider "n < 8" | "8 \<le> n" "n < 16" | "16 \<le> n" "n < 24" | "24 \<le> n" "n < 32"
    using n by fastforce
  then show "bit (push_bit 24 (ucast (ucast (drop_bit 24 v) :: byte))
         OR push_bit 16 (ucast (ucast (drop_bit 16 v) :: byte))
         OR push_bit 8 (ucast (ucast (drop_bit 8 v) :: byte))
         OR (ucast (ucast v :: byte) :: u32)) n = bit v n"
    by cases (auto simp: bit_simps)
qed

lemma sint_ucast32: "sint (ucast (r::u32) :: i64) = uint r"
proof -
  have "uint r < 2 ^ 32" using uint_lt2p [of r] by simp
  then have "uint r < 2 ^ 63" by simp
  moreover have "- (2 ^ 63) \<le> uint r"
  proof -
    have "(0::int) \<le> 2 ^ 63" by simp
    with uint_ge_0 [of r] show ?thesis by linarith
  qed
  ultimately have "signed_take_bit 63 (uint r) = uint r"
    by (rule signed_take_bit_int_eq_self [rotated])
  then show ?thesis
    by (simp add: signed_ucast_eq)
qed

lemma floor_at_zero:
  fixes r :: u32 and s :: i64
  shows "sint (if ucast r \<le>s s then s - ucast r else 0) = max 0 (sint s - uint r)"
proof (cases "(ucast r :: i64) \<le>s s")
  case True
  then have le: "uint r \<le> sint s" by (simp add: word_sle_eq sint_ucast32)
  have "sint s < 2 ^ 63" using sint_lt [of s] by simp
  have "- (2 ^ 63) \<le> sint s - uint r" "sint s - uint r < 2 ^ 63"
  proof -
    have p: "(0::int) \<le> 2 ^ 63" by simp
    from p le \<open>sint s < 2 ^ 63\<close> uint_ge_0 [of r]
    show "- (2 ^ 63) \<le> sint s - uint r" by linarith
    from p le \<open>sint s < 2 ^ 63\<close> uint_ge_0 [of r]
    show "sint s - uint r < 2 ^ 63" by linarith
  qed
  then have "signed_take_bit 63 (sint s - uint r) = sint s - uint r"
    by (rule signed_take_bit_int_eq_self)
  then have "sint (s - ucast r) = sint s - uint r"
    by (simp add: sint_word_diff sint_ucast32)
  with True le show ?thesis by simp
next
  case False
  then have "sint s < uint r" by (simp add: word_sle_eq sint_ucast32)
  with False show ?thesis by simp
qed

section \<open>The logical file size\<close>

text \<open>
  C3. \<open>sqlcipherVfsFileSize\<close> queries the underlying file once and returns its status
  code and state unchanged. With the header in use the logical size is the real size
  minus the reserve size, floored at zero: read as a signed 64-bit value it is
  \<open>max 0 (realSize - reserve_sz)\<close>, so it is 0 for every real size below the reserve
  size and never negative. Without the header it is the real size as it came.
\<close>

theorem fileSize_floored:
  "(case xFileSize m (pReal p) of
      (rc, rSize, st) \<Rightarrow>
        (case sqlcipherVfsFileSize m p of
           (rc', pSize, p') \<Rightarrow>
             rc' = rc \<and> p' = p\<lparr>pReal := st\<rparr>
             \<and> (if use_header p
                then sint pSize = max 0 (sint rSize - uint (reserve_sz p))
                else pSize = rSize)))"
proof -
  obtain rc rSize st where q: "xFileSize m (pReal p) = (rc, rSize, st)"
    by (cases "xFileSize m (pReal p)") auto
  show ?thesis
    using floor_at_zero [of "reserve_sz p" rSize]
    by (simp add: sqlcipherVfsFileSize_def q)
qed

section \<open>Facts about buffers and the header image\<close>

lemmas geometry_defs = SQLCIPHER_MIN_HDR_SZ_def SQLCIPHER_MAGIC_SZ_def

lemmas status_defs = SQLITE_OK_def SQLITE_IOERR_def SQLITE_IOERR_SHORT_READ_def SQLITE_FULL_def
  SQLITE_NOMEM_def SQLITE_NOTFOUND_def

lemmas buffer_defs = sqlite3Get4byte_def sqlite3Put4byte_def memcpy_def sqlcipher_malloc_def
  buf_fill_def sqlcipherMagic_def ok_then_def

lemmas mem_defs = mem_methods_def mem_xRead_def mem_xWrite_def mem_xFileSize_def
  mem_xTruncate_def full_methods_def

lemmas shim_defs = sqlcipherVfsOpen_def sqlcipherVfsReadHeader_def sqlcipherVfsWriteHeader_def
  sqlcipherVfsWrite_def sqlcipherVfsRead_def sqlcipherVfsTruncate_def sqlcipherVfsFileSize_def
  header_image_def hdr_write_due_def hdr_shift_def

lemmas example_defs = blank_handle_def plain_db_def short_file_def empty_file_def
  pending_handle_def small_reserve_file_def stamped_handle_def unix_vfs_def shim_vfs_def

lemma buf_fill_same: "length data = length buf \<Longrightarrow> buf_fill buf data = data"
  by (simp add: buf_fill_def)

lemma length_magic: "length sqlcipherMagic = 32"
  by (simp add: sqlcipherMagic_def)

lemma put4_length:
  "sqlite3Put4byte p off v = Inr q \<Longrightarrow> length q = length p"
  by (auto simp: sqlite3Put4byte_def split: if_splits)

lemma put4_defined:
  "off + 4 \<le> length p \<Longrightarrow> \<exists>q. sqlite3Put4byte p off v = Inr q"
  by (simp add: sqlite3Put4byte_def)

lemma get4_put4_same:
  "sqlite3Put4byte p off v = Inr q \<Longrightarrow> sqlite3Get4byte q off = Inr v"
  using be32_roundtrip [of v]
  by (auto simp: sqlite3Put4byte_def sqlite3Get4byte_def split: if_splits)

lemma get4_put4_before:
  "sqlite3Put4byte p off v = Inr q \<Longrightarrow> i + 4 \<le> off
     \<Longrightarrow> sqlite3Get4byte q i = sqlite3Get4byte p i"
  by (auto simp: sqlite3Put4byte_def sqlite3Get4byte_def split: if_splits)

lemma take_put4:
  "sqlite3Put4byte p off v = Inr q \<Longrightarrow> n \<le> off \<Longrightarrow> take n q = take n p"
  by (auto simp: sqlite3Put4byte_def split: if_splits)

lemma drop_put4:
  "sqlite3Put4byte p off v = Inr q \<Longrightarrow> off + 4 \<le> n \<Longrightarrow> drop n q = drop n p"
  by (auto simp: sqlite3Put4byte_def split: if_splits)

lemma get4_take:
  "i + 4 \<le> n \<Longrightarrow> n \<le> length p \<Longrightarrow> sqlite3Get4byte (take n p) i = sqlite3Get4byte p i"
  by (simp add: sqlite3Get4byte_def)

text \<open>
  With at least 56 bytes reserved, every store of the header image is inside the buffer,
  and each field can be loaded back from its offset.
\<close>

lemma header_image_fields:
  assumes big: "56 \<le> unat (reserve_sz p)"
  shows "\<exists>img. header_image p = Inr img \<and> length img = unat (reserve_sz p)
           \<and> take 32 img = sqlcipherMagic
           \<and> sqlite3Get4byte img 32 = Inr (reserve_sz p)
           \<and> sqlite3Get4byte img 36 = Inr (version p)
           \<and> sqlite3Get4byte img 40 = Inr (page_sz p)
           \<and> sqlite3Get4byte img 44 = Inr (kdf_iter p)
           \<and> sqlite3Get4byte img 48 = Inr (fast_kdf_iter p)
           \<and> sqlite3Get4byte img 52 = Inr (flags p)
           \<and> drop 56 img = replicate (unat (reserve_sz p) - 56) 0"
proof -
  let ?R = "unat (reserve_sz p)"
  define h0 where "h0 = sqlcipherMagic @ replicate (?R - 32) (0::byte)"
  have c0: "memcpy (sqlcipher_malloc ?R) sqlcipherMagic SQLCIPHER_MAGIC_SZ = Inr h0"
    using big
    by (simp add: memcpy_def sqlcipher_malloc_def SQLCIPHER_MAGIC_SZ_def length_magic h0_def)
  have l0: "length h0 = ?R" using big by (simp add: h0_def length_magic)
  have t0: "take 32 h0 = sqlcipherMagic" by (simp add: h0_def length_magic)
  have d0: "drop 56 h0 = replicate (?R - 56) 0" by (simp add: h0_def length_magic)
  from put4_defined [of 32 h0] big l0
  obtain h1 where c1: "sqlite3Put4byte h0 32 (reserve_sz p) = Inr h1" by auto
  have l1: "length h1 = ?R" using put4_length [OF c1] l0 by simp
  from put4_defined [of 36 h1] big l1
  obtain h2 where c2: "sqlite3Put4byte h1 36 (version p) = Inr h2" by auto
  have l2: "length h2 = ?R" using put4_length [OF c2] l1 by simp
  from put4_defined [of 40 h2] big l2
  obtain h3 where c3: "sqlite3Put4byte h2 40 (page_sz p) = Inr h3" by auto
  have l3: "length h3 = ?R" using put4_length [OF c3] l2 by simp
  from put4_defined [of 44 h3] big l3
  obtain h4 where c4: "sqlite3Put4byte h3 44 (kdf_iter p) = Inr h4" by auto
  have l4: "length h4 = ?R" using put4_length [OF c4] l3 by simp
  from put4_defined [of 48 h4] big l4
  obtain h5 where c5: "sqlite3Put4byte h4 48 (fast_kdf_iter p) = Inr h5" by auto
  have l5: "length h5 = ?R" using put4_length [OF c5] l4 by simp
  from put4_defined [of 52 h5] big l5
  obtain h6 where c6: "sqlite3Put4byte h5 52 (flags p) = Inr h6" by auto
  have l6: "length h6 = ?R" using put4_length [OF c6] l5 by simp
  have img: "header_image p = Inr h6"
    by (simp add: header_image_def ok_then_def c0 c1 c2 c3 c4 c5 c6)
  have tk: "take 32 h6 = sqlcipherMagic"
    using take_put4 [OF c6, of 32] take_put4 [OF c5, of 32] take_put4 [OF c4, of 32]
      take_put4 [OF c3, of 32] take_put4 [OF c2, of 32] take_put4 [OF c1, of 32] t0
    by simp
  have dr: "drop 56 h6 = replicate (?R - 56) 0"
    using drop_put4 [OF c6, of 56] drop_put4 [OF c5, of 56] drop_put4 [OF c4, of 56]
      drop_put4 [OF c3, of 56] drop_put4 [OF c2, of 56] drop_put4 [OF c1, of 56] d0
    by simp
  have g32: "sqlite3Get4byte h6 32 = Inr (reserve_sz p)"
    using get4_put4_before [OF c6, of 32] get4_put4_before [OF c5, of 32]
      get4_put4_before [OF c4, of 32] get4_put4_before [OF c3, of 32]
      get4_put4_before [OF c2, of 32] get4_put4_same [OF c1]
    by simp
  have g36: "sqlite3Get4byte h6 36 = Inr (version p)"
    using get4_put4_before [OF c6, of 36] get4_put4_before [OF c5, of 36]
      get4_put4_before [OF c4, of 36] get4_put4_before [OF c3, of 36]
      get4_put4_same [OF c2]
    by simp
  have g40: "sqlite3Get4byte h6 40 = Inr (page_sz p)"
    using get4_put4_before [OF c6, of 40] get4_put4_before [OF c5, of 40]
      get4_put4_before [OF c4, of 40] get4_put4_same [OF c3]
    by simp
  have g44: "sqlite3Get4byte h6 44 = Inr (kdf_iter p)"
    using get4_put4_before [OF c6, of 44] get4_put4_before [OF c5, of 44]
      get4_put4_same [OF c4]
    by simp
  have g48: "sqlite3Get4byte h6 48 = Inr (fast_kdf_iter p)"
    using get4_put4_before [OF c6, of 48] get4_put4_same [OF c5]
    by simp
  have g52: "sqlite3Get4byte h6 52 = Inr (flags p)"
    using get4_put4_same [OF c6] by simp
  from img l6 tk dr g32 g36 g40 g44 g48 g52 show ?thesis by blast
qed

text \<open>
  Header detection on a file whose two reads return the first 36 bytes and the whole of
  such an image: the fields come back and the header is in use.
\<close>

lemma readHeader_decodes:
  assumes r1: "xRead m (pReal q) 36 0 = (SQLITE_OK, take 36 img, s1)"
      and r2: "xRead m s1 r 0 = (SQLITE_OK, img, s2)"
      and len: "length img = unat r" and big: "56 \<le> unat r"
      and mg: "take 32 img = sqlcipherMagic"
      and g32: "sqlite3Get4byte img 32 = Inr r"
      and g36: "sqlite3Get4byte img 36 = Inr v"
      and g40: "sqlite3Get4byte img 40 = Inr ps"
      and g44: "sqlite3Get4byte img 44 = Inr k"
      and g48: "sqlite3Get4byte img 48 = Inr fk"
      and g52: "sqlite3Get4byte img 52 = Inr fl"
  shows "sqlcipherVfsReadHeader m q
           = Inr (SQLITE_OK,
                  q\<lparr>pReal := s2, use_header := True, needs_write := False, did_read := True,
                    reserve_sz := r, version := v, page_sz := ps, kdf_iter := k,
                    fast_kdf_iter := fk, flags := fl\<rparr>)"
proof -
  have r1': "xRead m (pReal q) (of_nat SQLCIPHER_MIN_HDR_SZ) 0 = (SQLITE_OK, take 36 img, s1)"
    using r1 by (simp add: geometry_defs)
  have f1: "buf_fill (replicate SQLCIPHER_MIN_HDR_SZ 0) (take 36 img) = take 36 img"
    using len big by (intro buf_fill_same) (simp add: geometry_defs)
  have f2: "buf_fill (sqlcipher_malloc (unat r)) img = img"
    using len by (intro buf_fill_same) (simp add: sqlcipher_malloc_def)
  have m1: "take (min SQLCIPHER_MAGIC_SZ 36) img = sqlcipherMagic"
    using mg by (simp add: SQLCIPHER_MAGIC_SZ_def)
  have g: "sqlite3Get4byte (take 36 img) 32 = Inr r"
    using get4_take [of 32 36 img] len big g32 by simp
  show ?thesis
    by (simp add: sqlcipherVfsReadHeader_def Let_def r1' f1 m1 g ok_then_def r2 f2
          g36 g40 g44 g48 g52)
qed

section \<open>Facts about the in-memory file\<close>

lemma mem_write_empty:
  assumes "mem_bytes f = []" and "length img = unat r" and "0 \<le> sint r"
  shows "mem_xWrite f img r 0 = (SQLITE_OK, f\<lparr>mem_bytes := img\<rparr>)"
  using assms by (simp add: mem_xWrite_def)

lemma mem_write_at_end:
  assumes "length (mem_bytes f) = unat iOfst" and "0 \<le> sint iOfst" and "0 \<le> sint iAmt"
  shows "mem_xWrite f zBuf iAmt iOfst
           = (SQLITE_OK, f\<lparr>mem_bytes := mem_bytes f @ take (unat iAmt) zBuf\<rparr>)"
  using assms by (simp add: mem_xWrite_def Let_def)

lemma mem_read_prefix:
  assumes "0 \<le> sint iAmt" and "unat iAmt \<le> length (mem_bytes f)"
  shows "mem_xRead f iAmt 0 = (SQLITE_OK, take (unat iAmt) (mem_bytes f), f)"
  using assms by (simp add: mem_xRead_def Let_def min_def)

lemma mem_write_then_read:
  assumes "0 \<le> sint iAmt" and "0 \<le> sint iOfst" and "unat iAmt \<le> length zBuf"
  shows "\<exists>f'. mem_xWrite f zBuf iAmt iOfst = (SQLITE_OK, f')
             \<and> mem_xRead f' iAmt iOfst = (SQLITE_OK, take (unat iAmt) zBuf, f')"
  using assms by (simp add: mem_xWrite_def mem_xRead_def Let_def min_def)

section \<open>Encoding and decoding the header\<close>

text \<open>
  C8. For every handle whose reserve size is at least 56, the header image that
  \<open>sqlcipherVfsWriteHeader\<close> builds exists, has reserve-size bytes, holds the magic
  in bytes 0 to 31 and the six fields as big-endian 32-bit integers at offsets 32, 36,
  40, 44, 48 and 52, with zero bytes after offset 56. Decoding is what
  \<open>sqlcipherVfsReadHeader\<close> does: on any underlying file whose first read returns
  the first 36 bytes of the image and whose second read returns the image, it yields a
  handle with the same six fields, the header in use.
\<close>

theorem header_roundtrip:
  assumes big: "56 \<le> unat (reserve_sz p)"
  shows "\<exists>img. header_image p = Inr img \<and> length img = unat (reserve_sz p)
           \<and> take 32 img = sqlcipherMagic
           \<and> sqlite3Get4byte img 32 = Inr (reserve_sz p)
           \<and> sqlite3Get4byte img 36 = Inr (version p)
           \<and> sqlite3Get4byte img 40 = Inr (page_sz p)
           \<and> sqlite3Get4byte img 44 = Inr (kdf_iter p)
           \<and> sqlite3Get4byte img 48 = Inr (fast_kdf_iter p)
           \<and> sqlite3Get4byte img 52 = Inr (flags p)
           \<and> drop 56 img = replicate (unat (reserve_sz p) - 56) 0
           \<and> (\<forall>(m :: 'g io_methods) q s1 s2.
                 xRead m (pReal q) 36 0 = (SQLITE_OK, take 36 img, s1)
                 \<and> xRead m s1 (reserve_sz p) 0 = (SQLITE_OK, img, s2)
                 \<longrightarrow> sqlcipherVfsReadHeader m q
                       = Inr (SQLITE_OK,
                              q\<lparr>pReal := s2, use_header := True, needs_write := False,
                                did_read := True, reserve_sz := reserve_sz p,
                                version := version p, page_sz := page_sz p,
                                kdf_iter := kdf_iter p,
                                fast_kdf_iter := fast_kdf_iter p, flags := flags p\<rparr>))"
proof -
  from header_image_fields [OF big]
  obtain img where i: "header_image p = Inr img" "length img = unat (reserve_sz p)"
      "take 32 img = sqlcipherMagic"
      "sqlite3Get4byte img 32 = Inr (reserve_sz p)"
      "sqlite3Get4byte img 36 = Inr (version p)"
      "sqlite3Get4byte img 40 = Inr (page_sz p)"
      "sqlite3Get4byte img 44 = Inr (kdf_iter p)"
      "sqlite3Get4byte img 48 = Inr (fast_kdf_iter p)"
      "sqlite3Get4byte img 52 = Inr (flags p)"
      "drop 56 img = replicate (unat (reserve_sz p) - 56) 0"
    by blast
  have "sqlcipherVfsReadHeader m q
          = Inr (SQLITE_OK,
                 q\<lparr>pReal := s2, use_header := True, needs_write := False,
                   did_read := True, reserve_sz := reserve_sz p,
                   version := version p, page_sz := page_sz p,
                   kdf_iter := kdf_iter p,
                   fast_kdf_iter := fast_kdf_iter p, flags := flags p\<rparr>)"
    if "xRead m (pReal q) 36 0 = (SQLITE_OK, take 36 img, s1)"
      and "xRead m s1 (reserve_sz p) 0 = (SQLITE_OK, img, s2)"
    for m :: "'g io_methods" and q s1 s2
    using readHeader_decodes [OF that i(2) big i(3-9)] .
  with i show ?thesis by blast
qed

text \<open>
  The round trip on the in-memory file: a handle with a reserve size of 64 and five
  other fields writes its header to an empty file, and detection on a blank handle over
  that file reads the six fields back.
\<close>

theorem header_roundtrip_witness:
  "56 \<le> unat (reserve_sz stamped_handle)
   \<and> (case sqlcipherVfsWriteHeader mem_methods stamped_handle of
        Inl e \<Rightarrow> False
      | Inr (rc, h) \<Rightarrow>
          sqlcipherVfsReadHeader mem_methods (blank_handle (pReal h))
            = Inr (SQLITE_OK, h\<lparr>needs_write := False, did_read := True\<rparr>))"
proof -
  let ?p = "stamped_handle"
  have big: "56 \<le> unat (reserve_sz ?p)"
    by (simp add: example_defs)
  show ?thesis
    using header_roundtrip [where ?'g = mem_file, OF big]
  proof (elim exE conjE)
    fix img
    assume i1: "header_image ?p = Inr img" and i2: "length img = unat (reserve_sz ?p)"
      and dec: "\<forall>(m :: mem_file io_methods) q s1 s2.
                 xRead m (pReal q) 36 0 = (SQLITE_OK, take 36 img, s1)
                 \<and> xRead m s1 (reserve_sz ?p) 0 = (SQLITE_OK, img, s2)
                 \<longrightarrow> sqlcipherVfsReadHeader m q
                       = Inr (SQLITE_OK,
                              q\<lparr>pReal := s2, use_header := True, needs_write := False,
                                did_read := True, reserve_sz := reserve_sz ?p,
                                version := version ?p, page_sz := page_sz ?p,
                                kdf_iter := kdf_iter ?p,
                                fast_kdf_iter := fast_kdf_iter ?p, flags := flags ?p\<rparr>)"
    let ?f = "\<lparr>mem_bytes = img, mem_sector = 64\<rparr>"
    have len: "length img = 64" using i2 by (simp add: example_defs)
    have pr: "pReal ?p = \<lparr>mem_bytes = [], mem_sector = 64\<rparr>" "reserve_sz ?p = 64"
      by (simp_all add: example_defs)
    have xw: "xWrite mem_methods (pReal ?p) img (reserve_sz ?p) 0 = (SQLITE_OK, ?f)"
      using mem_write_empty [of "pReal ?p" img 64] len pr by (simp add: mem_methods_def)
    have w: "sqlcipherVfsWriteHeader mem_methods ?p = Inr (SQLITE_OK, ?p\<lparr>pReal := ?f\<rparr>)"
      by (simp add: sqlcipherVfsWriteHeader_def i1 ok_then_def xw)
    have r1: "xRead mem_methods (pReal (blank_handle ?f)) 36 0 = (SQLITE_OK, take 36 img, ?f)"
      using mem_read_prefix [of 36 ?f] len by (simp add: mem_methods_def blank_handle_def)
    have r2: "xRead mem_methods ?f (reserve_sz ?p) 0 = (SQLITE_OK, img, ?f)"
      using mem_read_prefix [of 64 ?f] len pr
      by (simp add: mem_methods_def)
    from dec r1 r2
    have "sqlcipherVfsReadHeader mem_methods (blank_handle ?f)
            = Inr (SQLITE_OK,
                   (blank_handle ?f)\<lparr>pReal := ?f, use_header := True, needs_write := False,
                                did_read := True, reserve_sz := reserve_sz ?p,
                                version := version ?p, page_sz := page_sz ?p,
                                kdf_iter := kdf_iter ?p,
                                fast_kdf_iter := fast_kdf_iter ?p, flags := flags ?p\<rparr>)"
      by blast
    with w big show ?thesis
      by (simp add: example_defs)
  qed
qed

section \<open>A file without the magic\<close>

text \<open>
  C7. When the first 36 bytes of the file are read and the first 32 are not the magic,
  the open returns the status of the root open with the reserve size 0 and the header
  not in use; the only call it made on the underlying file is that read, whose state is
  the handle's. From then on read, write, truncate and size on the handle, whatever
  state \<open>s\<close> the file is in, are the underlying operations at the same offset,
  with the same buffer, length and result.
\<close>

theorem plain_file_is_headerless:
  assumes rd: "xRead m st 36 0 = (SQLITE_OK, data, st1)"
      and len: "length data = 36"
      and nomagic: "take 32 data \<noteq> sqlcipherMagic"
  shows "(let h = p0\<lparr>pReal := st1, use_header := False, needs_write := False,
                     did_read := False, reserve_sz := 0\<rparr>
          in sqlcipherVfsOpen (rc, Some m, st) p0 = Inr (rc, h)
           \<and> sqlcipherVfsRead m (h\<lparr>pReal := s\<rparr>) iAmt iOfst
               = (case xRead m s iAmt iOfst of (r, d, s') \<Rightarrow> (r, d, h\<lparr>pReal := s'\<rparr>))
           \<and> sqlcipherVfsWrite m (h\<lparr>pReal := s\<rparr>) zBuf iAmt iOfst
               = Inr (case xWrite m s zBuf iAmt iOfst of (r, s') \<Rightarrow> (r, h\<lparr>pReal := s'\<rparr>))
           \<and> sqlcipherVfsTruncate m (h\<lparr>pReal := s\<rparr>) sz
               = (case xTruncate m s sz of (r, s') \<Rightarrow> (r, h\<lparr>pReal := s'\<rparr>))
           \<and> sqlcipherVfsFileSize m (h\<lparr>pReal := s\<rparr>)
               = (case xFileSize m s of (r, n, s') \<Rightarrow> (r, n, h\<lparr>pReal := s'\<rparr>)))"
proof -
  have fill: "buf_fill (replicate SQLCIPHER_MIN_HDR_SZ 0) data = data"
    by (rule buf_fill_same) (simp add: len geometry_defs)
  have rd': "xRead m st (of_nat SQLCIPHER_MIN_HDR_SZ) 0 = (SQLITE_OK, data, st1)"
    using rd by (simp add: geometry_defs)
  have hdr: "sqlcipherVfsReadHeader m (p0\<lparr>pReal := st\<rparr>)
        = Inr (SQLITE_OK, p0\<lparr>pReal := st1, use_header := False, needs_write := False,
                     did_read := False, reserve_sz := 0\<rparr>)"
    using nomagic by (simp add: sqlcipherVfsReadHeader_def rd' fill SQLCIPHER_MAGIC_SZ_def)
  show ?thesis
    by (simp add: Let_def sqlcipherVfsOpen_def hdr ok_then_def sqlcipherVfsRead_def
          sqlcipherVfsWrite_def sqlcipherVfsTruncate_def sqlcipherVfsFileSize_def
          hdr_shift_def hdr_write_due_def split: prod.splits)
qed

text \<open>
  On the plain SQLite database: the open succeeds, the handle is the blank one, the file
  is untouched, and the four bytes at logical offset 16 are the four bytes at real
  offset 16.
\<close>

theorem plain_file_is_headerless_witness:
  "xRead mem_methods plain_db 36 0 = (SQLITE_OK, take 36 (mem_bytes plain_db), plain_db)
   \<and> take 32 (take 36 (mem_bytes plain_db)) \<noteq> sqlcipherMagic
   \<and> sqlcipherVfsOpen (SQLITE_OK, Some mem_methods, plain_db) (blank_handle plain_db)
       = Inr (SQLITE_OK, blank_handle plain_db)
   \<and> sqlcipherVfsRead mem_methods (blank_handle plain_db) 4 16
       = (SQLITE_OK, [0x10, 0x00, 0x01, 0x01], blank_handle plain_db)"
proof -
  have rd: "xRead mem_methods plain_db 36 0
              = (SQLITE_OK, take 36 (mem_bytes plain_db), plain_db)"
    by (simp add: mem_defs plain_db_def)
  have len: "length (take 36 (mem_bytes plain_db)) = 36"
    by (simp add: plain_db_def)
  have nomagic: "take 32 (take 36 (mem_bytes plain_db)) \<noteq> sqlcipherMagic"
    by (simp add: plain_db_def sqlcipherMagic_def)
  have at16: "xRead mem_methods plain_db 4 16 = (SQLITE_OK, [0x10, 0x00, 0x01, 0x01], plain_db)"
    by (simp add: mem_defs plain_db_def status_defs)
  from plain_file_is_headerless [OF rd len nomagic, of "blank_handle plain_db" SQLITE_OK
         plain_db 4 16]
  have "sqlcipherVfsOpen (SQLITE_OK, Some mem_methods, plain_db) (blank_handle plain_db)
          = Inr (SQLITE_OK, blank_handle plain_db)
        \<and> sqlcipherVfsRead mem_methods (blank_handle plain_db) 4 16
          = (SQLITE_OK, [0x10, 0x00, 0x01, 0x01], blank_handle plain_db)"
    by (simp add: Let_def blank_handle_def at16)
  with rd nomagic show ?thesis by simp
qed

section \<open>A failed first read on a file that is not empty\<close>

text \<open>
  C6 as stated fails on the ten-byte file: the 36-byte read is short, the size is 10,
  and the open still returns \<open>SQLITE_OK\<close>; the reserve size of the handle is whatever
  its memory held before, here \<open>0xDEADBEEF\<close>.
\<close>

theorem failed_peek_counterexample:
  "fst (xRead mem_methods short_file 36 0) = SQLITE_IOERR_SHORT_READ
   \<and> fst (snd (xFileSize mem_methods short_file)) = 10
   \<and> sqlcipherVfsOpen (SQLITE_OK, Some mem_methods, short_file)
        ((blank_handle empty_file)\<lparr>reserve_sz := 0xDEADBEEF\<rparr>)
       = Inr (SQLITE_OK, (blank_handle short_file)\<lparr>reserve_sz := 0xDEADBEEF\<rparr>)"
  by (simp add: shim_defs mem_defs example_defs buffer_defs geometry_defs status_defs)

text \<open>
  C6, amended. When the 36-byte read fails and the size that the underlying file reports
  is not 0, the open raises no error of its own: it returns the status of the root open,
  clears the three flags and leaves the reserve size as it was in the handle's memory.
  With the header not in use the handle is served without any shift.
\<close>

theorem failed_peek_is_ignored:
  assumes rd: "xRead m st 36 0 = (rc1, data, st1)"
      and fail: "rc1 \<noteq> SQLITE_OK"
      and sz: "xFileSize m st1 = (rc3, fsize, st3)"
      and nonzero: "fsize \<noteq> 0"
  shows "sqlcipherVfsOpen (rc, Some m, st) p0
           = Inr (rc, p0\<lparr>pReal := st3, use_header := False, needs_write := False,
                         did_read := False\<rparr>)
         \<and> hdr_shift (p0\<lparr>pReal := st3, use_header := False, needs_write := False,
                          did_read := False\<rparr>) = 0"
proof -
  have rd': "xRead m st (of_nat SQLCIPHER_MIN_HDR_SZ) 0 = (rc1, data, st1)"
    using rd by (simp add: geometry_defs)
  have "sqlcipherVfsReadHeader m (p0\<lparr>pReal := st\<rparr>)
        = Inr (SQLITE_OK, p0\<lparr>pReal := st3, use_header := False, needs_write := False,
                     did_read := False\<rparr>)"
    using fail nonzero by (simp add: sqlcipherVfsReadHeader_def rd' sz)
  then show ?thesis
    by (simp add: sqlcipherVfsOpen_def ok_then_def hdr_shift_def)
qed

theorem failed_peek_is_ignored_witness:
  "xRead mem_methods short_file 36 0
     = (SQLITE_IOERR_SHORT_READ, mem_bytes short_file @ replicate 26 0, short_file)
   \<and> SQLITE_IOERR_SHORT_READ \<noteq> SQLITE_OK
   \<and> xFileSize mem_methods short_file = (SQLITE_OK, 10, short_file)
   \<and> (10 :: i64) \<noteq> 0
   \<and> sqlcipherVfsOpen (SQLITE_NOMEM, Some mem_methods, short_file)
        ((blank_handle empty_file)\<lparr>reserve_sz := 7\<rparr>)
       = Inr (SQLITE_NOMEM, (blank_handle short_file)\<lparr>reserve_sz := 7\<rparr>)"
proof -
  have rd: "xRead mem_methods short_file 36 0
     = (SQLITE_IOERR_SHORT_READ, mem_bytes short_file @ replicate 26 0, short_file)"
    by (simp add: mem_defs short_file_def status_defs)
  have fail: "SQLITE_IOERR_SHORT_READ \<noteq> SQLITE_OK"
    by (simp add: status_defs)
  have sz: "xFileSize mem_methods short_file = (SQLITE_OK, 10, short_file)"
    by (simp add: mem_defs short_file_def)
  have nonzero: "(10 :: i64) \<noteq> 0" by simp
  from failed_peek_is_ignored [OF rd fail sz nonzero,
         of SQLITE_NOMEM "(blank_handle empty_file)\<lparr>reserve_sz := 7\<rparr>"]
  have "sqlcipherVfsOpen (SQLITE_NOMEM, Some mem_methods, short_file)
          ((blank_handle empty_file)\<lparr>reserve_sz := 7\<rparr>)
        = Inr (SQLITE_NOMEM, (blank_handle short_file)\<lparr>reserve_sz := 7\<rparr>)"
    by (simp add: blank_handle_def)
  with rd fail sz nonzero show ?thesis by simp
qed

section \<open>The lazy header write\<close>

text \<open>
  C4 as stated fails on a full device. The handle has the header in use, still to be
  written, with 64 bytes reserved. The write of the 64-byte header fails, the data write
  fails too and reports \<open>SQLITE_FULL\<close>, and \<open>needs_write\<close> is cleared all the same.
  When the device accepts writes again, the next write at logical offset 0 does not
  write the header: the file is 64 zero bytes followed by the data.
\<close>

theorem header_retry_counterexample:
  "hdr_write_due (pending_handle 64) 0
   \<and> fst (xWrite full_methods (pReal (pending_handle 64)) (sqlcipher_malloc 64) 64 0)
       = SQLITE_FULL
   \<and> sqlcipherVfsWrite full_methods (pending_handle 64) [7] 1 0
       = Inr (SQLITE_FULL, (pending_handle 64)\<lparr>needs_write := False\<rparr>)
   \<and> sqlcipherVfsWrite mem_methods ((pending_handle 64)\<lparr>needs_write := False\<rparr>) [7] 1 0
       = Inr (SQLITE_OK,
              (pending_handle 64)
                \<lparr>needs_write := False,
                 pReal := \<lparr>mem_bytes = replicate 64 0 @ [7], mem_sector = 64\<rparr>\<rparr>)"
  by (simp add: shim_defs mem_defs example_defs buffer_defs geometry_defs status_defs)

text \<open>
  C4, amended. When the guard of the lazy header write holds at logical offset 0 and the
  header image is built, the header is written once and \<open>needs_write\<close> is cleared
  whatever status \<open>rch\<close> that write returned, a failure included, so that no later
  write retries it. The data write of the same call is made on the state the header
  write left, at the reserve size, and its status is the status of the call.
\<close>

theorem header_write_status_dropped:
  assumes due: "hdr_write_due p 0"
      and img: "header_image p = Inr img"
      and hw: "xWrite m (pReal p) img (reserve_sz p) 0 = (rch, st1)"
      and dw: "xWrite m st1 zBuf iAmt (ucast (reserve_sz p)) = (rcd, st2)"
  shows "sqlcipherVfsWrite m p zBuf iAmt 0
           = Inr (rcd, p\<lparr>pReal := st2, needs_write := False\<rparr>)
         \<and> hdr_write_due (p\<lparr>pReal := st2, needs_write := False\<rparr>) iOfst = False"
proof -
  from due have uh: "use_header p" by (simp add: hdr_write_due_def)
  have "sqlcipherVfsWriteHeader m p = Inr (SQLITE_OK, p\<lparr>pReal := st1\<rparr>)"
    by (simp add: sqlcipherVfsWriteHeader_def img hw ok_then_def)
  then show ?thesis
    using due uh dw
    by (simp add: sqlcipherVfsWrite_def ok_then_def hdr_shift_def hdr_write_due_def)
qed

text \<open>The stamped handle on the full device: both writes fail, the flag is cleared.\<close>

theorem header_write_status_dropped_witness:
  "hdr_write_due stamped_handle 0
   \<and> xWrite full_methods (pReal stamped_handle) (sqlcipher_malloc 64) 64 0
       = (SQLITE_FULL, pReal stamped_handle)
   \<and> SQLITE_FULL \<noteq> SQLITE_OK
   \<and> sqlcipherVfsWrite full_methods stamped_handle [7] 1 0
       = Inr (SQLITE_FULL, stamped_handle\<lparr>needs_write := False\<rparr>)"
proof -
  have due: "hdr_write_due stamped_handle 0"
    by (simp add: hdr_write_due_def example_defs geometry_defs)
  have big: "56 \<le> unat (reserve_sz stamped_handle)"
    by (simp add: example_defs)
  from header_image_fields [OF big]
  obtain img where img: "header_image stamped_handle = Inr img" by blast
  have hw: "xWrite full_methods (pReal stamped_handle) img (reserve_sz stamped_handle) 0
              = (SQLITE_FULL, pReal stamped_handle)"
    by (simp add: full_methods_def)
  have dw: "xWrite full_methods (pReal stamped_handle) [7] 1
              (ucast (reserve_sz stamped_handle)) = (SQLITE_FULL, pReal stamped_handle)"
    by (simp add: full_methods_def)
  have same: "stamped_handle\<lparr>pReal := pReal stamped_handle, needs_write := False\<rparr>
                = stamped_handle\<lparr>needs_write := False\<rparr>"
    by simp
  from header_write_status_dropped [OF due img hw dw]
  have "sqlcipherVfsWrite full_methods stamped_handle [7] 1 0
          = Inr (SQLITE_FULL, stamped_handle\<lparr>needs_write := False\<rparr>)"
    by (simp add: same)
  moreover have "xWrite full_methods (pReal stamped_handle) (sqlcipher_malloc 64) 64 0
       = (SQLITE_FULL, pReal stamped_handle)"
    by (simp add: full_methods_def)
  moreover have "SQLITE_FULL \<noteq> SQLITE_OK" by (simp add: status_defs)
  ultimately show ?thesis using due by simp
qed

section \<open>Reserve sizes between 36 and 55\<close>

text \<open>
  C5. The guard of the lazy header write compares the reserve size with
  \<open>SQLCIPHER_MIN_HDR_SZ\<close>, which is 36, not with the 56 bytes of the header layout.
  For a handle with the header in use, still to be written, and a reserve size of 40,
  the guard holds at logical offset 0 although 40 is below 56: the header write is
  invoked, and it stores the page size at offset 40 of a 40-byte buffer.
\<close>

theorem header_write_invoked_below_56:
  "SQLCIPHER_MIN_HDR_SZ = 36
   \<and> unat (reserve_sz (pending_handle 40)) < 56
   \<and> hdr_write_due (pending_handle 40) 0
   \<and> sqlcipherVfsWriteHeader mem_methods (pending_handle 40) = Inl OutOfBounds
   \<and> sqlcipherVfsWrite mem_methods (pending_handle 40) [7] 1 0 = Inl OutOfBounds"
  by (simp add: shim_defs mem_defs example_defs buffer_defs geometry_defs status_defs)

text \<open>
  C10. Not every access to the header buffer is inside its reserve-size bytes. Decoding:
  on the file that starts with the magic and stores a reserve size of 40, both reads
  succeed, the buffer has 40 bytes and the load of the page size at offset 40 is outside
  it. Writing: with a reserve size of 36, which the guard of the write admits, the store
  of the version at offset 36 is outside the 36-byte buffer.
\<close>

theorem header_buffer_overrun:
  "sqlcipherVfsReadHeader mem_methods (blank_handle small_reserve_file) = Inl OutOfBounds
   \<and> sqlcipherVfsOpen (SQLITE_OK, Some mem_methods, small_reserve_file)
        (blank_handle small_reserve_file) = Inl OutOfBounds
   \<and> hdr_write_due (pending_handle 36) 0
   \<and> header_image (pending_handle 36) = Inl OutOfBounds
   \<and> sqlcipherVfsWrite mem_methods (pending_handle 36) [7] 1 0 = Inl OutOfBounds"
  by (simp add: shim_defs mem_defs example_defs buffer_defs geometry_defs status_defs)

section \<open>Offset translation\<close>

lemma unat_ucast32: "unat (ucast (r::u32) :: i64) = unat r"
proof -
  have "unat r < 2 ^ LENGTH(32)" by (rule unsigned_less)
  then have "unat r < 2 ^ 64" by simp
  then show ?thesis
    by (simp add: unsigned_ucast_eq take_bit_nat_eq_self)
qed

lemma sint_shifted:
  fixes r :: u32 and ofs :: i64
  assumes nn: "0 \<le> sint ofs" and fit: "sint ofs + uint r < 2 ^ 63"
  shows "sint (ofs + ucast r) = sint ofs + uint r"
proof -
  have p: "(0::int) \<le> 2 ^ 63" by simp
  from p nn uint_ge_0 [of r] have lo: "- (2 ^ 63) \<le> sint ofs + uint r" by linarith
  from lo fit have "signed_take_bit 63 (sint ofs + uint r) = sint ofs + uint r"
    by (rule signed_take_bit_int_eq_self)
  then show ?thesis
    by (simp add: sint_word_add sint_ucast32)
qed

lemma read_delegates:
  "sqlcipherVfsRead m p iAmt iOfst
     = (case xRead m (pReal p) iAmt (iOfst + hdr_shift p) of
          (rc, d, s) \<Rightarrow> (rc, d, p\<lparr>pReal := s\<rparr>))"
  by (simp add: sqlcipherVfsRead_def)

lemma write_delegates:
  "sqlcipherVfsWrite m p zBuf iAmt iOfst
     = (if hdr_write_due p iOfst
        then ok_then (header_image p) (\<lambda>img.
               case xWrite m (pReal p) img (reserve_sz p) 0 of
                 (rch, s1) \<Rightarrow>
                   Inr (case xWrite m s1 zBuf iAmt (iOfst + hdr_shift p) of
                          (rc, s) \<Rightarrow> (rc, p\<lparr>pReal := s, needs_write := False\<rparr>)))
        else Inr (case xWrite m (pReal p) zBuf iAmt (iOfst + hdr_shift p) of
                    (rc, s) \<Rightarrow> (rc, p\<lparr>pReal := s\<rparr>)))"
proof -
  have keep: "hdr_shift (p\<lparr>pReal := s, needs_write := False\<rparr>) = hdr_shift p" for s
    by (simp add: hdr_shift_def)
  show ?thesis
    by (simp add: sqlcipherVfsWrite_def sqlcipherVfsWriteHeader_def ok_then_def keep
          split: sum.splits prod.splits)
qed

lemma mem_write_read_shim:
  assumes uh: "use_header q" and big: "56 \<le> unat (reserve_sz q)"
      and nn: "0 \<le> sint iOfst" and fit: "sint iOfst + uint (reserve_sz q) < 2 ^ 63"
      and amt: "0 \<le> sint iAmt" and buf: "unat iAmt \<le> length zBuf"
  shows "\<exists>q'. sqlcipherVfsWrite mem_methods q zBuf iAmt iOfst = Inr (SQLITE_OK, q')
             \<and> sqlcipherVfsRead mem_methods q' iAmt iOfst
                 = (SQLITE_OK, take (unat iAmt) zBuf, q')"
proof -
  have sh: "hdr_shift q = ucast (reserve_sz q)" using uh by (simp add: hdr_shift_def)
  have real: "0 \<le> sint (iOfst + hdr_shift q)"
    using sint_shifted [OF nn fit] nn uint_ge_0 [of "reserve_sz q"] by (simp add: sh)
  from header_image_fields [OF big]
  obtain img where img: "header_image q = Inr img" by blast
  obtain rch s1 where hw: "mem_xWrite (pReal q) img (reserve_sz q) 0 = (rch, s1)"
    by (cases "mem_xWrite (pReal q) img (reserve_sz q) 0") auto
  define s0 where "s0 = (if hdr_write_due q iOfst then s1 else pReal q)"
  define q0 where "q0 = (if hdr_write_due q iOfst then q\<lparr>needs_write := False\<rparr> else q)"
  from mem_write_then_read [OF amt real buf, of s0]
  obtain f' where w: "mem_xWrite s0 zBuf iAmt (iOfst + hdr_shift q) = (SQLITE_OK, f')"
    and r: "mem_xRead f' iAmt (iOfst + hdr_shift q) = (SQLITE_OK, take (unat iAmt) zBuf, f')"
    by blast
  have sh': "hdr_shift (q0\<lparr>pReal := f'\<rparr>) = hdr_shift q"
    by (simp add: q0_def hdr_shift_def)
  have "sqlcipherVfsWrite mem_methods q zBuf iAmt iOfst = Inr (SQLITE_OK, q0\<lparr>pReal := f'\<rparr>)"
    using w hw img
    by (simp add: write_delegates ok_then_def mem_methods_def s0_def q0_def split: if_splits)
  moreover have "sqlcipherVfsRead mem_methods (q0\<lparr>pReal := f'\<rparr>) iAmt iOfst
                 = (SQLITE_OK, take (unat iAmt) zBuf, q0\<lparr>pReal := f'\<rparr>)"
    using r by (simp add: read_delegates sh' mem_methods_def)
  ultimately show ?thesis by blast
qed

text \<open>
  C2. Read and truncate are the underlying operation at the logical offset plus the
  reserve size when the header is in use, at the logical offset itself when it is not;
  buffer, length and status go through unchanged. Write is the same delegation, after
  the header write when its guard holds (the buffer is then the header image, and
  \<open>needs_write\<close> is cleared). On the in-memory file, for a handle with the header
  in use and at least 56 bytes reserved, a write of \<open>len\<close> bytes at a logical offset
  \<open>ofs \<ge> 0\<close> succeeds and a read of \<open>len\<close> bytes at \<open>ofs\<close> returns the bytes
  written; the real offset \<open>ofs + reserve_sz\<close> has to fit the signed 64 bits of
  \<^verbatim>\<open>sqlite_int64\<close>, beyond which the addition is undefined in C.
\<close>

theorem offset_translation:
  "sqlcipherVfsRead m p iAmt iOfst
     = (case xRead m (pReal p) iAmt
               (iOfst + (if use_header p then ucast (reserve_sz p) else 0)) of
          (rc, d, s) \<Rightarrow> (rc, d, p\<lparr>pReal := s\<rparr>))
   \<and> sqlcipherVfsTruncate m p sz
     = (case xTruncate m (pReal p)
               (sz + (if use_header p then ucast (reserve_sz p) else 0)) of
          (rc, s) \<Rightarrow> (rc, p\<lparr>pReal := s\<rparr>))
   \<and> sqlcipherVfsWrite m p zBuf iAmt iOfst
     = (if hdr_write_due p iOfst
        then ok_then (header_image p) (\<lambda>img.
               case xWrite m (pReal p) img (reserve_sz p) 0 of
                 (rch, s1) \<Rightarrow>
                   Inr (case xWrite m s1 zBuf iAmt
                               (iOfst + (if use_header p then ucast (reserve_sz p) else 0)) of
                          (rc, s) \<Rightarrow> (rc, p\<lparr>pReal := s, needs_write := False\<rparr>)))
        else Inr (case xWrite m (pReal p) zBuf iAmt
                         (iOfst + (if use_header p then ucast (reserve_sz p) else 0)) of
                    (rc, s) \<Rightarrow> (rc, p\<lparr>pReal := s\<rparr>)))
   \<and> (use_header q \<and> 56 \<le> unat (reserve_sz q)
        \<and> 0 \<le> sint ofs \<and> sint ofs + uint (reserve_sz q) < 2 ^ 63
        \<and> 0 \<le> sint len \<and> unat len \<le> length buf
      \<longrightarrow> (\<exists>q'. sqlcipherVfsWrite mem_methods q buf len ofs = Inr (SQLITE_OK, q')
                \<and> sqlcipherVfsRead mem_methods q' len ofs
                    = (SQLITE_OK, take (unat len) buf, q')))"
proof (intro conjI impI)
  show "sqlcipherVfsRead m p iAmt iOfst
     = (case xRead m (pReal p) iAmt
               (iOfst + (if use_header p then ucast (reserve_sz p) else 0)) of
          (rc, d, s) \<Rightarrow> (rc, d, p\<lparr>pReal := s\<rparr>))"
    by (simp add: sqlcipherVfsRead_def hdr_shift_def)
  show "sqlcipherVfsTruncate m p sz
     = (case xTruncate m (pReal p)
               (sz + (if use_header p then ucast (reserve_sz p) else 0)) of
          (rc, s) \<Rightarrow> (rc, p\<lparr>pReal := s\<rparr>))"
    by (simp add: sqlcipherVfsTruncate_def hdr_shift_def)
  show "sqlcipherVfsWrite m p zBuf iAmt iOfst
     = (if hdr_write_due p iOfst
        then ok_then (header_image p) (\<lambda>img.
               case xWrite m (pReal p) img (reserve_sz p) 0 of
                 (rch, s1) \<Rightarrow>
                   Inr (case xWrite m s1 zBuf iAmt
                               (iOfst + (if use_header p then ucast (reserve_sz p) else 0)) of
                          (rc, s) \<Rightarrow> (rc, p\<lparr>pReal := s, needs_write := False\<rparr>)))
        else Inr (case xWrite m (pReal p) zBuf iAmt
                         (iOfst + (if use_header p then ucast (reserve_sz p) else 0)) of
                    (rc, s) \<Rightarrow> (rc, p\<lparr>pReal := s\<rparr>)))"
    using write_delegates [of m p zBuf iAmt iOfst] by (simp only: hdr_shift_def)
next
  assume a: "use_header q \<and> 56 \<le> unat (reserve_sz q)
        \<and> 0 \<le> sint ofs \<and> sint ofs + uint (reserve_sz q) < 2 ^ 63
        \<and> 0 \<le> sint len \<and> unat len \<le> length buf"
  then show "\<exists>q'. sqlcipherVfsWrite mem_methods q buf len ofs = Inr (SQLITE_OK, q')
                \<and> sqlcipherVfsRead mem_methods q' len ofs
                    = (SQLITE_OK, take (unat len) buf, q')"
    using mem_write_read_shim [of q ofs len buf] by blast
qed

text \<open>
  The stamped handle on the empty file: the first write at logical offset 0 puts the
  64-byte header in front, and three bytes read at logical offset 0 are the three
  bytes written.
\<close>

theorem offset_translation_witness:
  "use_header stamped_handle \<and> 56 \<le> unat (reserve_sz stamped_handle)
   \<and> 0 \<le> sint (0 :: i64) \<and> sint (0 :: i64) + uint (reserve_sz stamped_handle) < 2 ^ 63
   \<and> 0 \<le> sint (3 :: c_int) \<and> unat (3 :: c_int) \<le> length [1, 2, 3 :: byte]
   \<and> (case sqlcipherVfsWrite mem_methods stamped_handle [1, 2, 3] 3 0 of
        Inl e \<Rightarrow> False
      | Inr (rc, q') \<Rightarrow>
          rc = SQLITE_OK
          \<and> sqlcipherVfsRead mem_methods q' 3 0 = (SQLITE_OK, [1, 2, 3], q'))"
proof -
  have a: "use_header stamped_handle \<and> 56 \<le> unat (reserve_sz stamped_handle)
     \<and> 0 \<le> sint (0 :: i64) \<and> sint (0 :: i64) + uint (reserve_sz stamped_handle) < 2 ^ 63
     \<and> 0 \<le> sint (3 :: c_int) \<and> unat (3 :: c_int) \<le> length [1, 2, 3 :: byte]"
    by (simp add: example_defs)
  from offset_translation [of _ _ _ _ _ _ stamped_handle 0 3 "[1, 2, 3]"] a
  obtain q' where
    "sqlcipherVfsWrite mem_methods stamped_handle [1, 2, 3] 3 0 = Inr (SQLITE_OK, q')"
    "sqlcipherVfsRead mem_methods q' 3 0 = (SQLITE_OK, take (unat (3 :: c_int)) [1, 2, 3], q')"
    by blast
  with a show ?thesis by simp
qed

section \<open>Opening an empty file\<close>

text \<open>
  C1 as stated fails on the empty file with 4096-byte sectors: the open sets the reserve
  size to 4096 and \<open>needs_write\<close>, but \<open>use_header\<close> stays false. The first write
  of 100 bytes at logical offset 0 then writes no header and puts the data at real
  offset 0: the real file has 100 bytes, not 4196.
\<close>

theorem new_file_counterexample:
  "xFileSize mem_methods empty_file = (SQLITE_OK, 0, empty_file)
   \<and> xSectorSize mem_methods empty_file = 4096
   \<and> sqlcipherVfsOpen (SQLITE_OK, Some mem_methods, empty_file) (blank_handle empty_file)
       = Inr (SQLITE_OK, (blank_handle empty_file)\<lparr>needs_write := True, reserve_sz := 4096\<rparr>)
   \<and> use_header ((blank_handle empty_file)\<lparr>needs_write := True, reserve_sz := 4096\<rparr>)
       = False
   \<and> sqlcipherVfsWrite mem_methods
        ((blank_handle empty_file)\<lparr>needs_write := True, reserve_sz := 4096\<rparr>)
        (replicate 100 7) 100 0
       = Inr (SQLITE_OK,
              (blank_handle empty_file)
                \<lparr>needs_write := True, reserve_sz := 4096,
                 pReal := \<lparr>mem_bytes = replicate 100 7, mem_sector = 4096\<rparr>\<rparr>)"
  by (simp add: shim_defs mem_defs example_defs buffer_defs geometry_defs status_defs)

text \<open>
  The open of an empty in-memory file, the first write on the handle as the open left
  it, and the first write, the reopen and the read once \<open>use_header\<close> is set.
\<close>

lemma empty_mem_file_open:
  assumes empty: "mem_bytes f = []"
  shows "(let h = p0\<lparr>pReal := f, use_header := False, needs_write := True,
                     did_read := False, reserve_sz := mem_sector f\<rparr>;
              ha = h\<lparr>use_header := True\<rparr>;
              data = take (unat iAmt) zBuf
          in sqlcipherVfsOpen (rc, Some mem_methods, f) p0 = Inr (rc, h)
           \<and> (0 \<le> sint iAmt
                \<longrightarrow> sqlcipherVfsWrite mem_methods h zBuf iAmt 0
                      = Inr (SQLITE_OK, h\<lparr>pReal := f\<lparr>mem_bytes := data\<rparr>\<rparr>))
           \<and> (56 \<le> unat (mem_sector f) \<and> 0 \<le> sint (mem_sector f)
                \<and> 0 \<le> sint iAmt \<and> unat iAmt \<le> length zBuf
                \<longrightarrow> (\<exists>img. header_image ha = Inr img
                        \<and> take 32 img = sqlcipherMagic
                        \<and> sqlite3Get4byte img 32 = Inr (mem_sector f)
                        \<and> sqlcipherVfsWrite mem_methods ha zBuf iAmt 0
                            = Inr (SQLITE_OK,
                                   ha\<lparr>pReal := f\<lparr>mem_bytes := img @ data\<rparr>,
                                      needs_write := False\<rparr>)
                        \<and> length (img @ data) = unat (mem_sector f) + unat iAmt
                        \<and> sqlcipherVfsOpen (rc', Some mem_methods, f\<lparr>mem_bytes := img @ data\<rparr>) q0
                            = Inr (rc',
                                   q0\<lparr>pReal := f\<lparr>mem_bytes := img @ data\<rparr>,
                                      use_header := True, needs_write := False,
                                      did_read := True, reserve_sz := mem_sector f,
                                      version := version p0, page_sz := page_sz p0,
                                      kdf_iter := kdf_iter p0,
                                      fast_kdf_iter := fast_kdf_iter p0,
                                      flags := flags p0\<rparr>)
                        \<and> sqlcipherVfsRead mem_methods
                             (q0\<lparr>pReal := f\<lparr>mem_bytes := img @ data\<rparr>,
                                 use_header := True, needs_write := False,
                                 did_read := True, reserve_sz := mem_sector f,
                                 version := version p0, page_sz := page_sz p0,
                                 kdf_iter := kdf_iter p0,
                                 fast_kdf_iter := fast_kdf_iter p0,
                                 flags := flags p0\<rparr>) iAmt 0
                            = (SQLITE_OK, data,
                               q0\<lparr>pReal := f\<lparr>mem_bytes := img @ data\<rparr>,
                                  use_header := True, needs_write := False,
                                  did_read := True, reserve_sz := mem_sector f,
                                  version := version p0, page_sz := page_sz p0,
                                  kdf_iter := kdf_iter p0,
                                  fast_kdf_iter := fast_kdf_iter p0,
                                  flags := flags p0\<rparr>))))"
proof -
  define h where "h = p0\<lparr>pReal := f, use_header := False, needs_write := True,
                         did_read := False, reserve_sz := mem_sector f\<rparr>"
  define ha where "ha = h\<lparr>use_header := True\<rparr>"
  define data where "data = take (unat iAmt) zBuf"
  have opened: "sqlcipherVfsOpen (rc, Some mem_methods, f) p0 = Inr (rc, h)"
    using empty
    by (simp add: sqlcipherVfsOpen_def sqlcipherVfsReadHeader_def ok_then_def mem_defs
          geometry_defs status_defs h_def)
  have plain: "sqlcipherVfsWrite mem_methods h zBuf iAmt 0
                 = Inr (SQLITE_OK, h\<lparr>pReal := f\<lparr>mem_bytes := data\<rparr>\<rparr>)"
    if amt: "0 \<le> sint iAmt"
  proof -
    have "mem_xWrite f zBuf iAmt 0 = (SQLITE_OK, f\<lparr>mem_bytes := data\<rparr>)"
      using mem_write_at_end [of f 0 iAmt zBuf] empty amt by (simp add: data_def)
    then show ?thesis
      by (simp add: write_delegates hdr_write_due_def hdr_shift_def h_def mem_methods_def)
  qed
  have headed: "\<exists>img. header_image ha = Inr img
          \<and> take 32 img = sqlcipherMagic
          \<and> sqlite3Get4byte img 32 = Inr (mem_sector f)
          \<and> sqlcipherVfsWrite mem_methods ha zBuf iAmt 0
              = Inr (SQLITE_OK,
                     ha\<lparr>pReal := f\<lparr>mem_bytes := img @ data\<rparr>, needs_write := False\<rparr>)
          \<and> length (img @ data) = unat (mem_sector f) + unat iAmt
          \<and> sqlcipherVfsOpen (rc', Some mem_methods, f\<lparr>mem_bytes := img @ data\<rparr>) q0
              = Inr (rc',
                     q0\<lparr>pReal := f\<lparr>mem_bytes := img @ data\<rparr>,
                        use_header := True, needs_write := False,
                        did_read := True, reserve_sz := mem_sector f,
                        version := version p0, page_sz := page_sz p0,
                        kdf_iter := kdf_iter p0,
                        fast_kdf_iter := fast_kdf_iter p0,
                        flags := flags p0\<rparr>)
          \<and> sqlcipherVfsRead mem_methods
               (q0\<lparr>pReal := f\<lparr>mem_bytes := img @ data\<rparr>,
                   use_header := True, needs_write := False,
                   did_read := True, reserve_sz := mem_sector f,
                   version := version p0, page_sz := page_sz p0,
                   kdf_iter := kdf_iter p0,
                   fast_kdf_iter := fast_kdf_iter p0,
                   flags := flags p0\<rparr>) iAmt 0
              = (SQLITE_OK, data,
                 q0\<lparr>pReal := f\<lparr>mem_bytes := img @ data\<rparr>,
                    use_header := True, needs_write := False,
                    did_read := True, reserve_sz := mem_sector f,
                    version := version p0, page_sz := page_sz p0,
                    kdf_iter := kdf_iter p0,
                    fast_kdf_iter := fast_kdf_iter p0,
                    flags := flags p0\<rparr>)"
    if big: "56 \<le> unat (mem_sector f)" and fits: "0 \<le> sint (mem_sector f)"
      and amt: "0 \<le> sint iAmt" and buf: "unat iAmt \<le> length zBuf"
  proof -
    let ?s = "mem_sector f"
    have fld: "reserve_sz ha = ?s" "version ha = version p0" "page_sz ha = page_sz p0"
      "kdf_iter ha = kdf_iter p0" "fast_kdf_iter ha = fast_kdf_iter p0"
      "flags ha = flags p0" "pReal ha = f" "use_header ha" "needs_write ha"
      by (simp_all add: ha_def h_def)
    from header_image_fields [of ha] big fld
    obtain img where img: "header_image ha = Inr img" and len: "length img = unat ?s"
      and mg: "take 32 img = sqlcipherMagic"
      and g32: "sqlite3Get4byte img 32 = Inr ?s"
      and g36: "sqlite3Get4byte img 36 = Inr (version p0)"
      and g40: "sqlite3Get4byte img 40 = Inr (page_sz p0)"
      and g44: "sqlite3Get4byte img 44 = Inr (kdf_iter p0)"
      and g48: "sqlite3Get4byte img 48 = Inr (fast_kdf_iter p0)"
      and g52: "sqlite3Get4byte img 52 = Inr (flags p0)"
      by auto
    let ?f2 = "f\<lparr>mem_bytes := img @ data\<rparr>"
    have ldata: "length data = unat iAmt" using buf by (simp add: data_def)
    have due: "hdr_write_due ha 0"
      using big fld by (simp add: hdr_write_due_def geometry_defs)
    have sh: "hdr_shift ha = ucast ?s" using fld by (simp add: hdr_shift_def)
    have hw: "mem_xWrite f img ?s 0 = (SQLITE_OK, f\<lparr>mem_bytes := img\<rparr>)"
      using mem_write_empty [OF empty len fits] .
    have dw: "mem_xWrite (f\<lparr>mem_bytes := img\<rparr>) zBuf iAmt (ucast ?s) = (SQLITE_OK, ?f2)"
      using mem_write_at_end [of "f\<lparr>mem_bytes := img\<rparr>" "ucast ?s" iAmt zBuf] len amt
      by (simp add: unat_ucast32 sint_ucast32 data_def)
    have written: "sqlcipherVfsWrite mem_methods ha zBuf iAmt 0
              = Inr (SQLITE_OK, ha\<lparr>pReal := ?f2, needs_write := False\<rparr>)"
      using due img hw dw fld
      by (simp add: write_delegates ok_then_def sh mem_methods_def)
    have size: "length (img @ data) = unat ?s + unat iAmt"
      by (simp add: len ldata)
    have t36: "take 36 (img @ data) = take 36 img" using len big by simp
    have r1: "xRead mem_methods (pReal (q0\<lparr>pReal := ?f2\<rparr>)) 36 0
                = (SQLITE_OK, take 36 img, ?f2)"
      using mem_read_prefix [of 36 ?f2] len big t36 by (simp add: mem_methods_def)
    have r2: "xRead mem_methods ?f2 ?s 0 = (SQLITE_OK, img, ?f2)"
      using mem_read_prefix [of ?s ?f2] len fits by (simp add: mem_methods_def)
    let ?q = "q0\<lparr>pReal := ?f2, use_header := True, needs_write := False,
                  did_read := True, reserve_sz := ?s,
                  version := version p0, page_sz := page_sz p0,
                  kdf_iter := kdf_iter p0, fast_kdf_iter := fast_kdf_iter p0,
                  flags := flags p0\<rparr>"
    have "sqlcipherVfsReadHeader mem_methods (q0\<lparr>pReal := ?f2\<rparr>) = Inr (SQLITE_OK, ?q)"
      using readHeader_decodes [OF r1 r2 len big mg g32 g36 g40 g44 g48 g52] by simp
    then have reopened: "sqlcipherVfsOpen (rc', Some mem_methods, ?f2) q0 = Inr (rc', ?q)"
      by (simp add: sqlcipherVfsOpen_def ok_then_def)
    have "mem_xRead ?f2 iAmt (ucast ?s) = (SQLITE_OK, data, ?f2)"
      using len ldata amt
      by (simp add: mem_xRead_def unat_ucast32 sint_ucast32)
    then have readback: "sqlcipherVfsRead mem_methods ?q iAmt 0 = (SQLITE_OK, data, ?q)"
      by (simp add: read_delegates hdr_shift_def mem_methods_def)
    from img mg g32 written size reopened readback show ?thesis by blast
  qed
  show ?thesis
    unfolding Let_def
    using opened plain headed
    by (simp only: h_def [symmetric] ha_def [symmetric] data_def [symmetric]) blast
qed

text \<open>
  C1, amended. For every open where the 36-byte read fails and the underlying file
  reports a size of exactly 0, whatever the underlying file is, the open returns the
  status of the root open and a handle \<open>h\<close> whose reserve size is the sector size of
  the device, with \<open>needs_write\<close> set and \<open>use_header\<close> false. The rest is on
  the in-memory file \<open>f\<close>, empty at the open. On \<open>h\<close> the first
  write at logical offset 0 writes no header and puts the data at real offset 0. Once
  the layer above has set \<open>use_header\<close> on that handle, and the sector size is at
  least 56 and fits a C \<^verbatim>\<open>int\<close>, the first write of \<open>N\<close> bytes at logical offset 0
  writes the header image at real offset 0 and the data at real offset reserve size:
  the real file has reserve size plus \<open>N\<close> bytes, a reopen finds the magic, reads the
  stored reserve size and the five other fields back with the header in use, and a read
  at logical offset 0 on the reopened handle returns the data.
\<close>

theorem new_file_open:
  "(xRead m st 36 0 = (rc1, d, st1) \<and> rc1 \<noteq> SQLITE_OK
      \<and> xFileSize m st1 = (SQLITE_OK, 0, st3)
    \<longrightarrow> sqlcipherVfsOpen (rc, Some m, st) p1
          = Inr (rc, p1\<lparr>pReal := st3, use_header := False, needs_write := True,
                       did_read := False, reserve_sz := xSectorSize m st3\<rparr>))
   \<and> (mem_bytes f = []
    \<longrightarrow> (let h = p0\<lparr>pReal := f, use_header := False, needs_write := True,
                     did_read := False, reserve_sz := mem_sector f\<rparr>;
              ha = h\<lparr>use_header := True\<rparr>;
              data = take (unat iAmt) zBuf
          in sqlcipherVfsOpen (rc, Some mem_methods, f) p0 = Inr (rc, h)
           \<and> (0 \<le> sint iAmt
                \<longrightarrow> sqlcipherVfsWrite mem_methods h zBuf iAmt 0
                      = Inr (SQLITE_OK, h\<lparr>pReal := f\<lparr>mem_bytes := data\<rparr>\<rparr>))
           \<and> (56 \<le> unat (mem_sector f) \<and> 0 \<le> sint (mem_sector f)
                \<and> 0 \<le> sint iAmt \<and> unat iAmt \<le> length zBuf
                \<longrightarrow> (\<exists>img. header_image ha = Inr img
                        \<and> take 32 img = sqlcipherMagic
                        \<and> sqlite3Get4byte img 32 = Inr (mem_sector f)
                        \<and> sqlcipherVfsWrite mem_methods ha zBuf iAmt 0
                            = Inr (SQLITE_OK,
                                   ha\<lparr>pReal := f\<lparr>mem_bytes := img @ data\<rparr>,
                                      needs_write := False\<rparr>)
                        \<and> length (img @ data) = unat (mem_sector f) + unat iAmt
                        \<and> sqlcipherVfsOpen (rc', Some mem_methods, f\<lparr>mem_bytes := img @ data\<rparr>) q0
                            = Inr (rc',
                                   q0\<lparr>pReal := f\<lparr>mem_bytes := img @ data\<rparr>,
                                      use_header := True, needs_write := False,
                                      did_read := True, reserve_sz := mem_sector f,
                                      version := version p0, page_sz := page_sz p0,
                                      kdf_iter := kdf_iter p0,
                                      fast_kdf_iter := fast_kdf_iter p0,
                                      flags := flags p0\<rparr>)
                        \<and> sqlcipherVfsRead mem_methods
                             (q0\<lparr>pReal := f\<lparr>mem_bytes := img @ data\<rparr>,
                                 use_header := True, needs_write := False,
                                 did_read := True, reserve_sz := mem_sector f,
                                 version := version p0, page_sz := page_sz p0,
                                 kdf_iter := kdf_iter p0,
                                 fast_kdf_iter := fast_kdf_iter p0,
                                 flags := flags p0\<rparr>) iAmt 0
                            = (SQLITE_OK, data,
                               q0\<lparr>pReal := f\<lparr>mem_bytes := img @ data\<rparr>,
                                  use_header := True, needs_write := False,
                                  did_read := True, reserve_sz := mem_sector f,
                                  version := version p0, page_sz := page_sz p0,
                                  kdf_iter := kdf_iter p0,
                                  fast_kdf_iter := fast_kdf_iter p0,
                                  flags := flags p0\<rparr>)))))"
proof (intro conjI impI)
  assume a: "xRead m st 36 0 = (rc1, d, st1) \<and> rc1 \<noteq> SQLITE_OK
      \<and> xFileSize m st1 = (SQLITE_OK, 0, st3)"
  then have rd: "xRead m st (of_nat SQLCIPHER_MIN_HDR_SZ) 0 = (rc1, d, st1)"
    by (simp add: geometry_defs)
  have "sqlcipherVfsReadHeader m (p1\<lparr>pReal := st\<rparr>)
          = Inr (SQLITE_OK, p1\<lparr>pReal := st3, use_header := False, needs_write := True,
                               did_read := False, reserve_sz := xSectorSize m st3\<rparr>)"
    using a by (simp add: sqlcipherVfsReadHeader_def rd)
  then show "sqlcipherVfsOpen (rc, Some m, st) p1
          = Inr (rc, p1\<lparr>pReal := st3, use_header := False, needs_write := True,
                       did_read := False, reserve_sz := xSectorSize m st3\<rparr>)"
    by (simp add: sqlcipherVfsOpen_def ok_then_def)
next
  assume "mem_bytes f = []"
  then show "(let h = p0\<lparr>pReal := f, use_header := False, needs_write := True,
                     did_read := False, reserve_sz := mem_sector f\<rparr>;
              ha = h\<lparr>use_header := True\<rparr>;
              data = take (unat iAmt) zBuf
          in sqlcipherVfsOpen (rc, Some mem_methods, f) p0 = Inr (rc, h)
           \<and> (0 \<le> sint iAmt
                \<longrightarrow> sqlcipherVfsWrite mem_methods h zBuf iAmt 0
                      = Inr (SQLITE_OK, h\<lparr>pReal := f\<lparr>mem_bytes := data\<rparr>\<rparr>))
           \<and> (56 \<le> unat (mem_sector f) \<and> 0 \<le> sint (mem_sector f)
                \<and> 0 \<le> sint iAmt \<and> unat iAmt \<le> length zBuf
                \<longrightarrow> (\<exists>img. header_image ha = Inr img
                        \<and> take 32 img = sqlcipherMagic
                        \<and> sqlite3Get4byte img 32 = Inr (mem_sector f)
                        \<and> sqlcipherVfsWrite mem_methods ha zBuf iAmt 0
                            = Inr (SQLITE_OK,
                                   ha\<lparr>pReal := f\<lparr>mem_bytes := img @ data\<rparr>,
                                      needs_write := False\<rparr>)
                        \<and> length (img @ data) = unat (mem_sector f) + unat iAmt
                        \<and> sqlcipherVfsOpen (rc', Some mem_methods, f\<lparr>mem_bytes := img @ data\<rparr>) q0
                            = Inr (rc',
                                   q0\<lparr>pReal := f\<lparr>mem_bytes := img @ data\<rparr>,
                                      use_header := True, needs_write := False,
                                      did_read := True, reserve_sz := mem_sector f,
                                      version := version p0, page_sz := page_sz p0,
                                      kdf_iter := kdf_iter p0,
                                      fast_kdf_iter := fast_kdf_iter p0,
                                      flags := flags p0\<rparr>)
                        \<and> sqlcipherVfsRead mem_methods
                             (q0\<lparr>pReal := f\<lparr>mem_bytes := img @ data\<rparr>,
                                 use_header := True, needs_write := False,
                                 did_read := True, reserve_sz := mem_sector f,
                                 version := version p0, page_sz := page_sz p0,
                                 kdf_iter := kdf_iter p0,
                                 fast_kdf_iter := fast_kdf_iter p0,
                                 flags := flags p0\<rparr>) iAmt 0
                            = (SQLITE_OK, data,
                               q0\<lparr>pReal := f\<lparr>mem_bytes := img @ data\<rparr>,
                                  use_header := True, needs_write := False,
                                  did_read := True, reserve_sz := mem_sector f,
                                  version := version p0, page_sz := page_sz p0,
                                  kdf_iter := kdf_iter p0,
                                  fast_kdf_iter := fast_kdf_iter p0,
                                  flags := flags p0\<rparr>))))"
    by (rule empty_mem_file_open)
qed

text \<open>
  The scenario of the specification, with the header enabled on the handle after the
  open: an empty file, 4096-byte sectors, 100 bytes written at logical offset 0. The
  real file has 4196 bytes, the magic first and the data from real offset 4096; the
  reopen has the header in use with a reserve size of 4096 and reads the data back at
  logical offset 0.
\<close>

theorem new_file_open_witness:
  "xRead mem_methods empty_file 36 0
     = (SQLITE_IOERR_SHORT_READ, replicate 36 0, empty_file)
   \<and> SQLITE_IOERR_SHORT_READ \<noteq> SQLITE_OK
   \<and> xFileSize mem_methods empty_file = (SQLITE_OK, 0, empty_file)
   \<and> mem_bytes empty_file = []
   \<and> 56 \<le> unat (mem_sector empty_file) \<and> 0 \<le> sint (mem_sector empty_file)
   \<and> 0 \<le> sint (100 :: c_int) \<and> unat (100 :: c_int) \<le> length (replicate 100 (7 :: byte))
   \<and> sqlcipherVfsOpen (SQLITE_OK, Some mem_methods, empty_file) (blank_handle empty_file)
       = Inr (SQLITE_OK, (blank_handle empty_file)\<lparr>needs_write := True, reserve_sz := 4096\<rparr>)
   \<and> (case sqlcipherVfsWrite mem_methods (pending_handle 4096) (replicate 100 7) 100 0 of
        Inl e \<Rightarrow> False
      | Inr (rc, h') \<Rightarrow>
          rc = SQLITE_OK
          \<and> length (mem_bytes (pReal h')) = 4196
          \<and> take 32 (mem_bytes (pReal h')) = sqlcipherMagic
          \<and> drop 4096 (mem_bytes (pReal h')) = replicate 100 7
          \<and> (case sqlcipherVfsOpen (SQLITE_OK, Some mem_methods, pReal h')
                     (blank_handle empty_file) of
                Inl e \<Rightarrow> False
              | Inr (rc2, q) \<Rightarrow>
                  use_header q \<and> reserve_sz q = 4096
                  \<and> sqlcipherVfsRead mem_methods q 100 0 = (SQLITE_OK, replicate 100 7, q)))"
proof -
  have empty: "mem_bytes empty_file = []" by (simp add: empty_file_def)
  have pre: "56 \<le> unat (mem_sector empty_file) \<and> 0 \<le> sint (mem_sector empty_file)
     \<and> 0 \<le> sint (100 :: c_int) \<and> unat (100 :: c_int) \<le> length (replicate 100 (7 :: byte))"
    by (simp add: empty_file_def)
  let ?h = "(blank_handle empty_file)
              \<lparr>pReal := empty_file, use_header := False, needs_write := True,
               did_read := False, reserve_sz := mem_sector empty_file\<rparr>"
  let ?ha = "?h\<lparr>use_header := True\<rparr>"
  let ?data = "take (unat (100 :: c_int)) (replicate 100 (7 :: byte))"
  note t = new_file_open [where f = empty_file and ?p0.0 = "blank_handle empty_file"
      and iAmt = 100 and zBuf = "replicate 100 7" and rc = SQLITE_OK and rc' = SQLITE_OK
      and ?q0.0 = "blank_handle empty_file",
      THEN conjunct2, THEN mp, OF empty, unfolded Let_def]
  from t pre obtain img where
    mg: "take 32 img = sqlcipherMagic"
    and w: "sqlcipherVfsWrite mem_methods ?ha (replicate 100 7) 100 0
            = Inr (SQLITE_OK,
                   ?ha\<lparr>pReal := empty_file\<lparr>mem_bytes := img @ ?data\<rparr>,
                       needs_write := False\<rparr>)"
    and len: "length (img @ ?data) = unat (mem_sector empty_file) + unat (100 :: c_int)"
    and re: "sqlcipherVfsOpen (SQLITE_OK, Some mem_methods,
                 empty_file\<lparr>mem_bytes := img @ ?data\<rparr>)
               (blank_handle empty_file)
             = Inr (SQLITE_OK,
                    (blank_handle empty_file)
                      \<lparr>pReal := empty_file\<lparr>mem_bytes := img @ ?data\<rparr>,
                       use_header := True, needs_write := False,
                       did_read := True, reserve_sz := mem_sector empty_file,
                       version := version (blank_handle empty_file),
                       page_sz := page_sz (blank_handle empty_file),
                       kdf_iter := kdf_iter (blank_handle empty_file),
                       fast_kdf_iter := fast_kdf_iter (blank_handle empty_file),
                       flags := flags (blank_handle empty_file)\<rparr>)"
    and rd: "sqlcipherVfsRead mem_methods
               ((blank_handle empty_file)
                      \<lparr>pReal := empty_file\<lparr>mem_bytes := img @ ?data\<rparr>,
                       use_header := True, needs_write := False,
                       did_read := True, reserve_sz := mem_sector empty_file,
                       version := version (blank_handle empty_file),
                       page_sz := page_sz (blank_handle empty_file),
                       kdf_iter := kdf_iter (blank_handle empty_file),
                       fast_kdf_iter := fast_kdf_iter (blank_handle empty_file),
                       flags := flags (blank_handle empty_file)\<rparr>) 100 0
             = (SQLITE_OK, ?data,
                (blank_handle empty_file)
                      \<lparr>pReal := empty_file\<lparr>mem_bytes := img @ ?data\<rparr>,
                       use_header := True, needs_write := False,
                       did_read := True, reserve_sz := mem_sector empty_file,
                       version := version (blank_handle empty_file),
                       page_sz := page_sz (blank_handle empty_file),
                       kdf_iter := kdf_iter (blank_handle empty_file),
                       fast_kdf_iter := fast_kdf_iter (blank_handle empty_file),
                       flags := flags (blank_handle empty_file)\<rparr>)"
    by blast
  from len have l: "length img = 4096" by (simp add: empty_file_def)
  have probe: "xRead mem_methods empty_file 36 0
                 = (SQLITE_IOERR_SHORT_READ, replicate 36 0, empty_file)
     \<and> SQLITE_IOERR_SHORT_READ \<noteq> SQLITE_OK
     \<and> xFileSize mem_methods empty_file = (SQLITE_OK, 0, empty_file)"
    by (simp add: mem_defs empty_file_def status_defs)
  from new_file_open [where m = mem_methods and st = empty_file
      and ?p1.0 = "blank_handle empty_file" and rc = SQLITE_OK, THEN conjunct1] probe
  have opened': "sqlcipherVfsOpen (SQLITE_OK, Some mem_methods, empty_file)
                   (blank_handle empty_file)
                 = Inr (SQLITE_OK,
                        (blank_handle empty_file)
                          \<lparr>pReal := empty_file, use_header := False, needs_write := True,
                           did_read := False,
                           reserve_sz := xSectorSize mem_methods empty_file\<rparr>)"
    by blast
  from probe empty pre opened' w re rd mg l show ?thesis
    by (simp add: example_defs mem_methods_def)
qed

section \<open>Registration of the shim\<close>

lemma find_none_count:
  "find (\<lambda>v. zName v = n) reg = None \<Longrightarrow> length (filter (\<lambda>v. zName v = n) reg) = 0"
  by (induction reg) (auto split: if_splits)

lemma unlink_keeps_none:
  "find (\<lambda>v. zName v = n) reg = None \<Longrightarrow> find (\<lambda>v. zName v = n) (vfsUnlink a reg) = None"
  by (induction reg) (auto split: if_splits)

lemma register_default:
  "sqlite3_vfs_register pVfs True reg = (SQLITE_OK, pVfs # vfsUnlink (vfs_addr pVfs) reg)"
  by (simp add: sqlite3_vfs_register_def split: list.splits)

text \<open>
  C9 as stated fails once the shim is registered: with the providers \<open>sqlcipher\<close>
  and \<open>unix\<close> in the list, no provider is named \<open>bogus\<close>, and registering over
  \<open>bogus\<close> returns \<open>SQLITE_OK\<close>, not \<open>SQLITE_NOTFOUND\<close>; it does so even when
  no memory can be allocated.
\<close>

theorem register_counterexample:
  "sqlite3_vfs_find (Some ''bogus'') [shim_vfs, unix_vfs] = None
   \<and> sqlcipherVfs_register 80 (Some ''bogus'') None [shim_vfs, unix_vfs]
       = (SQLITE_OK, [shim_vfs, unix_vfs])
   \<and> SQLITE_OK \<noteq> SQLITE_NOTFOUND \<and> SQLITE_OK \<noteq> SQLITE_NOMEM"
  by (simp add: sqlcipherVfs_register_def sqlite3_vfs_find_def sqlite3_vfs_register_def
        newVfsName_def status_defs unix_vfs_def shim_vfs_def)

text \<open>
  C9, amended. While no provider named \<open>sqlcipher\<close> is registered:
  \<open>sqlcipherVfs_register\<close> returns \<open>SQLITE_NOTFOUND\<close> and leaves the list of
  providers as it was when no provider has the given name; it returns
  \<open>SQLITE_NOMEM\<close> and leaves the list as it was when the provider exists and the
  allocation fails; and when the provider exists and the allocation succeeds it returns
  \<open>SQLITE_OK\<close> with the shim as the default provider. After that, any further call, whatever
  name it is given and whether or not memory can be allocated, returns \<open>SQLITE_OK\<close>
  and leaves the list unchanged, with exactly one provider named \<open>sqlcipher\<close>.
\<close>

theorem register_cases:
  assumes fresh: "sqlite3_vfs_find (Some newVfsName) reg = None"
  shows "(sqlite3_vfs_find zOld reg = None
            \<longrightarrow> sqlcipherVfs_register szFile zOld alloc reg = (SQLITE_NOTFOUND, reg))
       \<and> (sqlite3_vfs_find zOld reg = Some pRoot
            \<longrightarrow> sqlcipherVfs_register szFile zOld None reg = (SQLITE_NOMEM, reg))
       \<and> (sqlite3_vfs_find zOld reg = Some pRoot
            \<longrightarrow> (\<exists>reg1. sqlcipherVfs_register szFile zOld (Some a) reg = (SQLITE_OK, reg1)
                    \<and> map_option zName (sqlite3_vfs_find None reg1) = Some newVfsName
                    \<and> sqlcipherVfs_register szFile zOld' alloc' reg1 = (SQLITE_OK, reg1)
                    \<and> length (filter (\<lambda>v. zName v = newVfsName) reg1) = 1))"
proof (intro conjI impI)
  assume "sqlite3_vfs_find zOld reg = None"
  then show "sqlcipherVfs_register szFile zOld alloc reg = (SQLITE_NOTFOUND, reg)"
    using fresh by (simp add: sqlcipherVfs_register_def)
next
  assume "sqlite3_vfs_find zOld reg = Some pRoot"
  then show "sqlcipherVfs_register szFile zOld None reg = (SQLITE_NOMEM, reg)"
    using fresh by (simp add: sqlcipherVfs_register_def)
next
  assume root: "sqlite3_vfs_find zOld reg = Some pRoot"
  define pNew where "pNew =
     \<lparr>vfs_addr = a, iVersion = iVersion pRoot, szOsFile = szOsFile pRoot + szFile,
      mxPathname = mxPathname pRoot, zName = newVfsName, xOpen_shim = True,
      methods_of = methods_of pRoot, pRootVfs = Some (vfs_addr pRoot)\<rparr>"
  define reg1 where "reg1 = pNew # vfsUnlink a reg"
  have nm: "zName pNew = newVfsName" and ad: "vfs_addr pNew = a"
    by (simp_all add: pNew_def)
  from fresh have none: "find (\<lambda>v. zName v = newVfsName) reg = None"
    by (simp add: sqlite3_vfs_find_def)
  have first: "sqlcipherVfs_register szFile zOld (Some a) reg = (SQLITE_OK, reg1)"
    using fresh root
    by (simp add: sqlcipherVfs_register_def register_default reg1_def pNew_def)
  have found: "sqlite3_vfs_find (Some newVfsName) reg1 = Some pNew"
    by (simp add: sqlite3_vfs_find_def reg1_def nm)
  have again: "sqlcipherVfs_register szFile zOld' alloc' reg1 = (SQLITE_OK, reg1)"
    by (simp add: sqlcipherVfs_register_def found register_default) (simp add: reg1_def ad)
  have one: "length (filter (\<lambda>v. zName v = newVfsName) reg1) = 1"
    using find_none_count [OF unlink_keeps_none [OF none, of a]]
    by (simp add: reg1_def nm)
  have head: "map_option zName (sqlite3_vfs_find None reg1) = Some newVfsName"
    by (simp add: sqlite3_vfs_find_def reg1_def nm)
  show "\<exists>reg1. sqlcipherVfs_register szFile zOld (Some a) reg = (SQLITE_OK, reg1)
                    \<and> map_option zName (sqlite3_vfs_find None reg1) = Some newVfsName
                    \<and> sqlcipherVfs_register szFile zOld' alloc' reg1 = (SQLITE_OK, reg1)
                    \<and> length (filter (\<lambda>v. zName v = newVfsName) reg1) = 1"
    by (rule exI [of _ reg1]) (simp add: first head again one)
qed

text \<open>
  With only \<open>unix\<close> registered: over \<open>win32\<close> the call is not found, over
  \<open>unix\<close> without memory it is out of memory, both leaving the list alone; over
  \<open>unix\<close> with memory at address 2 it installs \<open>shim_vfs\<close> first, and a second
  call changes nothing.
\<close>

theorem register_cases_witness:
  "sqlite3_vfs_find (Some newVfsName) [unix_vfs] = None
   \<and> sqlite3_vfs_find (Some ''win32'') [unix_vfs] = None
   \<and> sqlite3_vfs_find (Some ''unix'') [unix_vfs] = Some unix_vfs
   \<and> sqlcipherVfs_register 80 (Some ''win32'') (Some 2) [unix_vfs]
       = (SQLITE_NOTFOUND, [unix_vfs])
   \<and> sqlcipherVfs_register 80 (Some ''unix'') None [unix_vfs] = (SQLITE_NOMEM, [unix_vfs])
   \<and> sqlcipherVfs_register 80 (Some ''unix'') (Some 2) [unix_vfs]
       = (SQLITE_OK, [shim_vfs, unix_vfs])
   \<and> sqlcipherVfs_register 80 (Some ''unix'') (Some 3) [shim_vfs, unix_vfs]
       = (SQLITE_OK, [shim_vfs, unix_vfs])
   \<and> length (filter (\<lambda>v. zName v = newVfsName) [shim_vfs, unix_vfs]) = 1"
proof -
  have fresh: "sqlite3_vfs_find (Some newVfsName) [unix_vfs] = None"
    by (simp add: sqlite3_vfs_find_def newVfsName_def unix_vfs_def)
  have nowin: "sqlite3_vfs_find (Some ''win32'') [unix_vfs] = None"
    by (simp add: sqlite3_vfs_find_def unix_vfs_def)
  have root: "sqlite3_vfs_find (Some ''unix'') [unix_vfs] = Some unix_vfs"
    by (simp add: sqlite3_vfs_find_def unix_vfs_def)
  have first: "sqlcipherVfs_register 80 (Some ''unix'') (Some 2) [unix_vfs]
                 = (SQLITE_OK, [shim_vfs, unix_vfs])"
    by (simp add: sqlcipherVfs_register_def sqlite3_vfs_find_def sqlite3_vfs_register_def
          newVfsName_def unix_vfs_def shim_vfs_def)
  from register_cases [OF fresh, where zOld = "Some ''win32''" and szFile = 80
      and alloc = "Some 2"] nowin
  have c1: "sqlcipherVfs_register 80 (Some ''win32'') (Some 2) [unix_vfs]
              = (SQLITE_NOTFOUND, [unix_vfs])"
    by blast
  from register_cases [OF fresh, where zOld = "Some ''unix''" and szFile = 80
      and pRoot = unix_vfs and a = 2 and zOld' = "Some ''unix''" and alloc' = "Some 3"] root
  have c2: "sqlcipherVfs_register 80 (Some ''unix'') None [unix_vfs] = (SQLITE_NOMEM, [unix_vfs])"
    and c3: "\<exists>reg1. sqlcipherVfs_register 80 (Some ''unix'') (Some 2) [unix_vfs]
                      = (SQLITE_OK, reg1)
               \<and> map_option zName (sqlite3_vfs_find None reg1) = Some newVfsName
               \<and> sqlcipherVfs_register 80 (Some ''unix'') (Some 3) reg1 = (SQLITE_OK, reg1)
               \<and> length (filter (\<lambda>v. zName v = newVfsName) reg1) = 1"
    by blast+
  from c3 first
  have c4: "sqlcipherVfs_register 80 (Some ''unix'') (Some 3) [shim_vfs, unix_vfs]
              = (SQLITE_OK, [shim_vfs, unix_vfs])
            \<and> length (filter (\<lambda>v. zName v = newVfsName) [shim_vfs, unix_vfs]) = 1"
    by auto
  from fresh nowin root c1 c2 first c4 show ?thesis by simp
qed

end
